theory Spec2Isabelle
  imports Main
begin

section \<open>Python values and exceptions\<close>

text \<open>
  The certificate manager (\<^verbatim>\<open>protonvpn/services/certificate_manager.py\<close>) is
  dynamically typed: \<^verbatim>\<open>generate_vpn_cert\<close> receives arbitrary objects and tests
  them with \<^verbatim>\<open>isinstance\<close>. The arguments are therefore values of \<open>pyval\<close>.
  \<open>PySession\<close> is an instance of \<^verbatim>\<open>proton.api.Session\<close> (an opaque handle),
  \<open>PyObject\<close> an instance of any other class, named by its class.
\<close>

datatype pyval =
    PyStr string
  | PyInt int
  | PyBool bool
  | PyNone
  | PyList "pyval list"
  | PySession nat
  | PyObject string

fun isinstance_str :: "pyval \<Rightarrow> bool" where
  "isinstance_str (PyStr _) = True"
| "isinstance_str _ = False"

fun isinstance_Session :: "pyval \<Rightarrow> bool" where
  "isinstance_Session (PySession _) = True"
| "isinstance_Session _ = False"

fun isinstance_list :: "pyval \<Rightarrow> bool" where
  "isinstance_list (PyList _) = True"
| "isinstance_list _ = False"

text \<open>
  An error message built with \<^verbatim>\<open>str.format\<close>: literal text, \<^verbatim>\<open>type(v)\<close> of an
  argument \<open>v\<close>, or \<^verbatim>\<open>type(C)\<close> of a class \<open>C\<close>.
\<close>

datatype msg_part = Lit string | TypeOf pyval | TypeOfClass string

text \<open>
  The exceptions (instances of \<^verbatim>\<open>Exception\<close>) the module raises or can meet.
  \<^verbatim>\<open>IllegalVPNProtocol(e)\<close> and \<^verbatim>\<open>TemplateNotFound(e)\<close> are constructed from
  another exception, so the type is recursive; the argument of
  \<^verbatim>\<open>TemplateNotFound\<close> is a template name when jinja2 raises it.
  The \<^verbatim>\<open>OSError\<close> subclasses carry the path; \<open>OtherException\<close> is an instance
  of any other subclass of \<^verbatim>\<open>Exception\<close> (one that is neither a
  \<^verbatim>\<open>KeyError\<close> nor a \<^verbatim>\<open>TemplateNotFound\<close>), named by its class. What is
  no \<^verbatim>\<open>Exception\<close> (\<^verbatim>\<open>KeyboardInterrupt\<close>, \<^verbatim>\<open>SystemExit\<close>) is not modelled.
\<close>

datatype exn =
    TypeError "msg_part list"
  | ValueError string
  | KeyError pyval
  | IllegalVPNProtocol exn
  | TemplateNotFound exn_arg
  | FileNotFoundError string
  | FileExistsError string
  | IsADirectoryError string
  | PermissionError string
  | OtherException string
and exn_arg = ArgStr string | ArgExn exn

fun is_KeyError :: "exn \<Rightarrow> bool" where
  "is_KeyError (KeyError _) = True"
| "is_KeyError _ = False"

fun is_TemplateNotFound :: "exn \<Rightarrow> bool" where
  "is_TemplateNotFound (TemplateNotFound _) = True"
| "is_TemplateNotFound _ = False"

section \<open>Constants and enumerations of the package\<close>

text \<open>
  \<^verbatim>\<open>constants.py\<close> and \<^verbatim>\<open>enums.py\<close> are not among the source files, so what
  the manager imports from them is a parameter. The members of \<^verbatim>\<open>ProtocolEnum\<close>
  are used as dictionary keys and must pass \<^verbatim>\<open>isinstance(protocol, str)\<close>, so they
  are strings; \<open>enums_distinct\<close> says the four members are different values, as the
  members of a Python \<^verbatim>\<open>Enum\<close> without aliases are.
\<close>

record constants =
  ProtocolEnum_TCP :: string
  ProtocolEnum_UDP :: string
  ProtocolEnum_IKEV2 :: string
  ProtocolEnum_WIREGUARD :: string
  CACHED_OPENVPN_CERTIFICATE :: string
  OPENVPN_TEMPLATE :: string
  PROTON_XDG_CACHE_HOME :: string
  TEMPLATES :: string

definition enums_distinct :: "constants \<Rightarrow> bool" where
  "enums_distinct c =
     distinct [ProtocolEnum_TCP c, ProtocolEnum_UDP c,
               ProtocolEnum_IKEV2 c, ProtocolEnum_WIREGUARD c]"

text \<open>
  Modelled from the spec: the declaration of \<^verbatim>\<open>ProtocolPortEnum\<close> is missing.
  The spec gives it two members, one for TCP and one for UDP; the member itself (not a
  number) is what the generator puts into the template variables.
\<close>

datatype ProtocolPortEnum = ProtocolPortEnum_TCP | ProtocolPortEnum_UDP

section \<open>The world: connection state, file system, effects\<close>

text \<open>The dictionary \<^verbatim>\<open>j2_values\<close> handed to the template, with its three keys.\<close>

record j2_values =
  openvpn_protocol :: string
  serverlist :: "pyval list"
  openvpn_ports :: "ProtocolPortEnum list"

text \<open>
  Every call that leaves the module is recorded, in order, as an event. Calls of the
  logger are not modelled.
\<close>

datatype event =
    SaveServername string
  | SaveProtocol string
  | GetTemplate string string
  | Render j2_values
  | IsDir string
  | Mkdir string
  | OpenW string
  | Write string string
  | Remove string
  | CaptureException exn
  | Print string

record world =
  lastServerName :: "string option"
  lastProtocol :: "string option"
  fs_dirs :: "string set"
  fs_files :: "string \<rightharpoonup> string"
  effects :: "event list"

definition emit :: "event \<Rightarrow> world \<Rightarrow> world" where
  "emit ev w = w\<lparr>effects := effects w @ [ev]\<rparr>"

text \<open>
  The collaborators outside the module. \<open>get_template dir name\<close> is
  \<^verbatim>\<open>Environment(loader=FileSystemLoader(dir)).get_template(name)\<close>: an exception or
  a template, and a template is its \<^verbatim>\<open>render\<close> method. \<open>os_fault\<close> is what the
  operating system refuses for reasons the model does not track (permissions, a
  missing parent directory, a full disk).
\<close>

datatype syscall = SysMkdir string | SysOpen string | SysWrite string | SysRemove string

record externals =
  get_template :: "string \<Rightarrow> string \<Rightarrow> exn + (j2_values \<Rightarrow> exn + string)"
  os_fault :: "syscall \<Rightarrow> exn option"

subsection \<open>Python's file operations\<close>

text \<open>\<^verbatim>\<open>os.path.isdir(p)\<close>: never raises.\<close>

definition os_path_isdir :: "string \<Rightarrow> world \<Rightarrow> bool \<times> world" where
  "os_path_isdir p w = (p \<in> fs_dirs w, emit (IsDir p) w)"

text \<open>\<^verbatim>\<open>os.mkdir(p)\<close>: raises \<^verbatim>\<open>FileExistsError\<close> when \<open>p\<close> exists.\<close>

definition os_mkdir :: "externals \<Rightarrow> string \<Rightarrow> world \<Rightarrow> (exn + unit) \<times> world" where
  "os_mkdir x p w =
     (let w1 = emit (Mkdir p) w in
      case os_fault x (SysMkdir p) of
        Some e \<Rightarrow> (Inl e, w1)
      | None \<Rightarrow>
          if p \<in> fs_dirs w \<or> fs_files w p \<noteq> None then (Inl (FileExistsError p), w1)
          else (Inr (), w1\<lparr>fs_dirs := insert p (fs_dirs w1)\<rparr>))"

text \<open>\<^verbatim>\<open>open(p, "w")\<close>: creates the file or truncates it.\<close>

definition open_w :: "externals \<Rightarrow> string \<Rightarrow> world \<Rightarrow> (exn + unit) \<times> world" where
  "open_w x p w =
     (let w1 = emit (OpenW p) w in
      case os_fault x (SysOpen p) of
        Some e \<Rightarrow> (Inl e, w1)
      | None \<Rightarrow>
          if p \<in> fs_dirs w then (Inl (IsADirectoryError p), w1)
          else (Inr (), w1\<lparr>fs_files := (fs_files w1)(p \<mapsto> [])\<rparr>))"

text \<open>\<^verbatim>\<open>f.write(text)\<close> on the file opened at \<open>p\<close>, flushed when the block closes it.\<close>

definition file_write :: "externals \<Rightarrow> string \<Rightarrow> string \<Rightarrow> world \<Rightarrow> (exn + unit) \<times> world" where
  "file_write x p text w =
     (let w1 = emit (Write p text) w in
      case os_fault x (SysWrite p) of
        Some e \<Rightarrow> (Inl e, w1)
      | None \<Rightarrow>
          (Inr (), w1\<lparr>fs_files :=
             (fs_files w1)(p \<mapsto> (case fs_files w1 p of None \<Rightarrow> [] | Some old \<Rightarrow> old) @ text)\<rparr>))"

text \<open>
  \<^verbatim>\<open>os.remove(p)\<close>: raises \<^verbatim>\<open>IsADirectoryError\<close> on a directory and
  \<^verbatim>\<open>FileNotFoundError\<close> when nothing is at \<open>p\<close>.
\<close>

definition os_remove :: "externals \<Rightarrow> string \<Rightarrow> world \<Rightarrow> (exn + unit) \<times> world" where
  "os_remove x p w =
     (let w1 = emit (Remove p) w in
      case os_fault x (SysRemove p) of
        Some e \<Rightarrow> (Inl e, w1)
      | None \<Rightarrow>
          if p \<in> fs_dirs w then (Inl (IsADirectoryError p), w1)
          else if fs_files w p = None then (Inl (FileNotFoundError p), w1)
          else (Inr (), w1\<lparr>fs_files := (fs_files w1)(p := None)\<rparr>))"

subsection \<open>Helpers of the package that are not in the source files\<close>

text \<open>
  Modelled from the spec: \<^verbatim>\<open>ConnectionStateManager.save_servername\<close> is missing
  (\<^verbatim>\<open>connection_state_manager.py\<close>). The spec: an unconditional write to
  ConnectionState, last write wins, no error conditions.
\<close>

definition save_servername :: "string \<Rightarrow> world \<Rightarrow> world" where
  "save_servername servername w = emit (SaveServername servername) (w\<lparr>lastServerName := Some servername\<rparr>)"

text \<open>
  Modelled from the spec: \<^verbatim>\<open>ConnectionStateManager.save_protocol\<close> is missing; as
  for \<open>save_servername\<close>.
\<close>

definition save_protocol :: "string \<Rightarrow> world \<Rightarrow> world" where
  "save_protocol protocol w = emit (SaveProtocol protocol) (w\<lparr>lastProtocol := Some protocol\<rparr>)"

text \<open>
  Modelled from the spec: \<^verbatim>\<open>capture_exception\<close> (\<^verbatim>\<open>services/__init__.py\<close>) is
  missing. The spec: report(error), a side effect with no return value.
\<close>

definition capture_exception :: "exn \<Rightarrow> world \<Rightarrow> world" where
  "capture_exception e w = emit (CaptureException e) w"

section \<open>CertificateManager\<close>

type_synonym generator =
  "string \<Rightarrow> pyval list \<Rightarrow> string \<Rightarrow> string \<Rightarrow> world \<Rightarrow> (exn + pyval) \<times> world"

text \<open>
  Lines 136-137 of \<^verbatim>\<open>generate_openvpn_cert\<close>:
  \<^verbatim>\<open>if not os.path.isdir(PROTON_XDG_CACHE_HOME): os.mkdir(PROTON_XDG_CACHE_HOME)\<close>.
\<close>

definition ensure_cache_dir :: "constants \<Rightarrow> externals \<Rightarrow> world \<Rightarrow> (exn + unit) \<times> world" where
  "ensure_cache_dir c x w =
     (case os_path_isdir (PROTON_XDG_CACHE_HOME c) w of
        (isdir, w1) \<Rightarrow>
          if \<not> isdir then os_mkdir x (PROTON_XDG_CACHE_HOME c) w1 else (Inr (), w1))"

text \<open>The dictionary \<^verbatim>\<open>ports\<close> of \<^verbatim>\<open>generate_openvpn_cert\<close> (a later key wins).\<close>

definition ports :: "constants \<Rightarrow> string \<rightharpoonup> ProtocolPortEnum" where
  "ports c = [ProtocolEnum_TCP c \<mapsto> ProtocolPortEnum_TCP,
              ProtocolEnum_UDP c \<mapsto> ProtocolPortEnum_UDP]"

text \<open>
  \<^verbatim>\<open>generate_openvpn_cert\<close>, in the order of the source: the port lookup while the
  variables are built (a \<^verbatim>\<open>KeyError\<close> for any other protocol), the template lookup,
  the cache directory, then the \<^verbatim>\<open>with\<close> block, which opens the file before it
  renders and writes.
\<close>

definition generate_openvpn_cert :: "constants \<Rightarrow> externals \<Rightarrow> generator" where
  "generate_openvpn_cert c x servername ip_list cached_cert protocol w =
     (case ports c protocol of
        None \<Rightarrow> (Inl (KeyError (PyStr protocol)), w)
      | Some port \<Rightarrow>
          let j2_values = \<lparr>openvpn_protocol = protocol, serverlist = ip_list,
                           openvpn_ports = [port]\<rparr>;
              w1 = emit (GetTemplate (TEMPLATES c) (OPENVPN_TEMPLATE c)) w
          in
          (case get_template x (TEMPLATES c) (OPENVPN_TEMPLATE c) of
            Inl e \<Rightarrow> (Inl e, w1)
          | Inr template \<Rightarrow>
              (case ensure_cache_dir c x w1 of
                 (Inl e, w2) \<Rightarrow> (Inl e, w2)
               | (Inr _, w2) \<Rightarrow>
                   (case open_w x cached_cert w2 of
                      (Inl e, w3) \<Rightarrow> (Inl e, w3)
                    | (Inr _, w3) \<Rightarrow>
                        let w4 = emit (Render j2_values) w3 in
                        (case template j2_values of
                           Inl e \<Rightarrow> (Inl e, w4)
                         | Inr text \<Rightarrow>
                             (case file_write x cached_cert text w4 of
                                (Inl e, w5) \<Rightarrow> (Inl e, w5)
                              | (Inr _, w5) \<Rightarrow> (Inr (PyStr cached_cert), w5)))))))"

definition generate_strongswan_cert :: generator where
  "generate_strongswan_cert servername ip_list cached_cert unused w =
     (Inr (PyBool True), emit (Print ''Generate Strongswan'') w)"

definition generate_wireguard_cert :: generator where
  "generate_wireguard_cert servername ip_list cached_cert unused w =
     (Inr (PyBool True), emit (Print ''Generate wireguard'') w)"

text \<open>The dispatch table of \<^verbatim>\<open>generate_vpn_cert\<close> (a later key wins).\<close>

definition protocol_dict :: "constants \<Rightarrow> externals \<Rightarrow> string \<rightharpoonup> generator" where
  "protocol_dict c x =
     [ProtocolEnum_TCP c \<mapsto> generate_openvpn_cert c x,
      ProtocolEnum_UDP c \<mapsto> generate_openvpn_cert c x,
      ProtocolEnum_IKEV2 c \<mapsto> generate_strongswan_cert,
      ProtocolEnum_WIREGUARD c \<mapsto> generate_wireguard_cert]"

text \<open>
  The body of the \<^verbatim>\<open>try\<close> (lines 92-95): the lookup \<^verbatim>\<open>protocol_dict[protocol]\<close>
  and the call of the generator it finds.
\<close>

definition dispatch ::
  "constants \<Rightarrow> externals \<Rightarrow> string \<Rightarrow> pyval list \<Rightarrow> string \<Rightarrow> string \<Rightarrow> world \<Rightarrow> (exn + pyval) \<times> world"
where
  "dispatch c x servername ip_list cached_cert protocol w =
     (case protocol_dict c x protocol of
        None \<Rightarrow> (Inl (KeyError (PyStr protocol)), w)
      | Some g \<Rightarrow> g servername ip_list cached_cert protocol w)"

text \<open>
  The \<^verbatim>\<open>except\<close> clauses (lines 96-104), in their order. A function that ends
  without \<^verbatim>\<open>return\<close> returns \<^verbatim>\<open>None\<close>.
\<close>

definition handle_dispatch :: "(exn + pyval) \<times> world \<Rightarrow> (exn + pyval) \<times> world" where
  "handle_dispatch r =
     (case r of
        (Inr v, w) \<Rightarrow> (Inr v, w)
      | (Inl e, w) \<Rightarrow>
          if is_KeyError e then (Inl (IllegalVPNProtocol e), w)
          else if is_TemplateNotFound e then (Inl (TemplateNotFound (ArgExn e)), w)
          else (Inr PyNone, capture_exception e w))"

text \<open>
  \<^verbatim>\<open>generate_vpn_cert\<close>. \<open>cached_cert\<close> is a path: the default
  \<^verbatim>\<open>CACHED_OPENVPN_CERTIFICATE\<close> is what the caller passes when it gives none.
  Each \<open>case\<close> is one \<^verbatim>\<open>isinstance\<close> check of the source, in its order, and the
  branch \<open>_\<close> is the \<^verbatim>\<open>raise TypeError(err_msg)\<close> of that check; the message of
  the second check formats \<^verbatim>\<open>type(Session)\<close> and \<^verbatim>\<open>type(protocol)\<close>, as the
  source does.
\<close>

definition generate_vpn_cert ::
  "constants \<Rightarrow> externals \<Rightarrow> pyval \<Rightarrow> pyval \<Rightarrow> pyval \<Rightarrow> pyval \<Rightarrow> string \<Rightarrow> world \<Rightarrow> (exn + pyval) \<times> world"
where
  "generate_vpn_cert c x protocol session servername ip_list cached_cert w =
     (case protocol of
        PyStr p \<Rightarrow>
          (case session of
             PySession _ \<Rightarrow>
               (case servername of
                  PyStr s \<Rightarrow>
                    (case ip_list of
                       PyList ips \<Rightarrow>
                         if length ips = 0 then
                           (Inl (ValueError ''No servers were provided''), w)
                         else
                           let w1 = save_servername s w;
                               w2 = save_protocol p w1
                           in handle_dispatch (dispatch c x s ips cached_cert p w2)
                     | _ \<Rightarrow>
                         (Inl (TypeError
                            [Lit ''Incorrect object type, list is expected but got '',
                             TypeOf ip_list, Lit '' instead'']), w))
                | _ \<Rightarrow>
                    (Inl (TypeError
                       [Lit ''Incorrect object type, str is expected but got '',
                        TypeOf servername, Lit '' instead'']), w))
           | _ \<Rightarrow>
               (Inl (TypeError
                  [Lit ''Incorrect object type, '', TypeOfClass ''Session'',
                   Lit '' is expected but got '', TypeOf protocol, Lit '' instead'']), w))
      | _ \<Rightarrow>
          (Inl (TypeError
             [Lit ''Incorrect object type, str is expected but got '',
              TypeOf protocol, Lit '' instead'']), w))"

text \<open>\<^verbatim>\<open>delete_cached_certificate\<close>: \<^verbatim>\<open>os.remove(filename)\<close> and nothing else.\<close>

definition delete_cached_certificate :: "externals \<Rightarrow> string \<Rightarrow> world \<Rightarrow> (exn + unit) \<times> world" where
  "delete_cached_certificate x filename w = os_remove x filename w"

section \<open>Bookkeeping for the proofs\<close>

text \<open>The two events that record into the connection state.\<close>

fun is_save :: "event \<Rightarrow> bool" where
  "is_save (SaveServername _) = True"
| "is_save (SaveProtocol _) = True"
| "is_save _ = False"

text \<open>
  \<open>extends w w'\<close>: from \<open>w\<close> to \<open>w'\<close> the connection state is untouched and the new
  events record nothing into it.
\<close>

definition extends :: "world \<Rightarrow> world \<Rightarrow> bool" where
  "extends w w' =
     (lastServerName w' = lastServerName w \<and> lastProtocol w' = lastProtocol w \<and>
      (\<exists>rest. effects w' = effects w @ rest \<and> filter is_save rest = []))"

text \<open>The events of a call: what \<open>w'\<close> has after the events of \<open>w\<close>.\<close>

definition new_effects :: "world \<Rightarrow> world \<Rightarrow> event list" where
  "new_effects w w' = drop (length (effects w)) (effects w')"

section \<open>Concrete inputs\<close>

text \<open>
  One choice of what \<^verbatim>\<open>enums.py\<close> and \<^verbatim>\<open>constants.py\<close> define, and a world
  where the cache directory does not exist yet.
\<close>

definition example_constants :: constants where
  "example_constants =
     \<lparr>ProtocolEnum_TCP = ''tcp'', ProtocolEnum_UDP = ''udp'',
      ProtocolEnum_IKEV2 = ''ikev2'', ProtocolEnum_WIREGUARD = ''wireguard'',
      CACHED_OPENVPN_CERTIFICATE = ''/home/user/.cache/protonvpn/ProtonVPN.ovpn'',
      OPENVPN_TEMPLATE = ''openvpn_template.j2'',
      PROTON_XDG_CACHE_HOME = ''/home/user/.cache/protonvpn'',
      TEMPLATES = ''/usr/lib/protonvpn/templates''\<rparr>"

definition example_world :: world where
  "example_world =
     \<lparr>lastServerName = None, lastProtocol = None,
      fs_dirs = {''/tmp''}, fs_files = Map.empty, effects = []\<rparr>"

text \<open>A world where the cache directory and a cached certificate exist.\<close>

definition cached_world :: world where
  "cached_world =
     \<lparr>lastServerName = Some ''CH#1'', lastProtocol = Some ''tcp'',
      fs_dirs = {''/tmp'', ''/home/user/.cache/protonvpn''},
      fs_files = [''/tmp/cert.ovpn'' \<mapsto> ''proto tcp''], effects = []\<rparr>"

text \<open>A small template: the protocol, one line for each address, the ports.\<close>

definition example_render :: "j2_values \<Rightarrow> exn + string" where
  "example_render v =
     Inr (''proto '' @ openvpn_protocol v @
          concat (map (\<lambda>ip. case ip of PyStr a \<Rightarrow> ''; remote '' @ a | _ \<Rightarrow> []) (serverlist v)) @
          concat (map (\<lambda>p. case p of ProtocolPortEnum_TCP \<Rightarrow> ''; port tcp''
                                   | ProtocolPortEnum_UDP \<Rightarrow> ''; port udp'') (openvpn_ports v)))"

definition example_externals :: externals where
  "example_externals =
     \<lparr>get_template = (\<lambda>dir name. Inr example_render), os_fault = (\<lambda>call. None)\<rparr>"

text \<open>The template is not in the templates directory.\<close>

definition no_template_externals :: externals where
  "no_template_externals =
     \<lparr>get_template = (\<lambda>dir name. Inl (TemplateNotFound (ArgStr name))),
      os_fault = (\<lambda>call. None)\<rparr>"

text \<open>
  A template whose rendering raises \<^verbatim>\<open>KeyError\<close>, as
  \<^verbatim>\<open>{{ "{port}".format() }}\<close> does.
\<close>

definition keyerror_externals :: externals where
  "keyerror_externals =
     \<lparr>get_template = (\<lambda>dir name. Inr (\<lambda>v. Inl (KeyError (PyStr ''port'')))),
      os_fault = (\<lambda>call. None)\<rparr>"

text \<open>A template whose rendering raises jinja2's \<^verbatim>\<open>UndefinedError\<close>.\<close>

definition undefined_externals :: externals where
  "undefined_externals =
     \<lparr>get_template = (\<lambda>dir name. Inr (\<lambda>v. Inl (OtherException ''UndefinedError''))),
      os_fault = (\<lambda>call. None)\<rparr>"

text \<open>
  A template that is found and whose rendering raises \<^verbatim>\<open>TemplateNotFound\<close>, as
  \<^verbatim>\<open>{% include "routes.j2" %}\<close> does when that file is missing.
\<close>

definition include_missing_externals :: externals where
  "include_missing_externals =
     \<lparr>get_template = (\<lambda>dir name. Inr (\<lambda>v. Inl (TemplateNotFound (ArgStr ''routes.j2'')))),
      os_fault = (\<lambda>call. None)\<rparr>"

text \<open>An operating system that refuses every removal.\<close>

definition readonly_externals :: externals where
  "readonly_externals =
     \<lparr>get_template = (\<lambda>dir name. Inr example_render),
      os_fault = (\<lambda>call. case call of SysRemove p \<Rightarrow> Some (PermissionError p) | _ \<Rightarrow> None)\<rparr>"

section \<open>Lemmas\<close>


lemma emit_simps [simp]:
  "effects (emit ev w) = effects w @ [ev]"
  "fs_dirs (emit ev w) = fs_dirs w"
  "fs_files (emit ev w) = fs_files w"
  "lastServerName (emit ev w) = lastServerName w"
  "lastProtocol (emit ev w) = lastProtocol w"
  by (simp_all add: emit_def)

lemmas os_defs = ensure_cache_dir_def os_path_isdir_def os_mkdir_def open_w_def file_write_def

lemma protocol_dict_openvpn:
  assumes "enums_distinct c"
    and "protocol = ProtocolEnum_TCP c \<or> protocol = ProtocolEnum_UDP c"
  shows "protocol_dict c x protocol = Some (generate_openvpn_cert c x)"
  using assms by (auto simp: protocol_dict_def enums_distinct_def)

lemma ports_openvpn:
  assumes "enums_distinct c"
    and "protocol = ProtocolEnum_TCP c \<or> protocol = ProtocolEnum_UDP c"
  shows "ports c protocol =
           Some (if protocol = ProtocolEnum_TCP c then ProtocolPortEnum_TCP else ProtocolPortEnum_UDP)"
  using assms by (auto simp: ports_def enums_distinct_def)

lemma generate_vpn_cert_valid:
  assumes "ip_list \<noteq> []"
  shows "generate_vpn_cert c x (PyStr protocol) (PySession h) (PyStr servername) (PyList ip_list) cached_cert w =
         handle_dispatch (dispatch c x servername ip_list cached_cert protocol
           (save_protocol protocol (save_servername servername w)))"
  using assms by (simp add: generate_vpn_cert_def)

lemma generate_openvpn_cert_success:
  assumes ports: "ports c protocol = Some port"
    and tmpl: "get_template x (TEMPLATES c) (OPENVPN_TEMPLATE c) = Inr template"
    and rend: "template \<lparr>openvpn_protocol = protocol, serverlist = ip_list,
                 openvpn_ports = [port]\<rparr> = Inr text"
    and home: "PROTON_XDG_CACHE_HOME c \<in> fs_dirs w \<or>
               (os_fault x (SysMkdir (PROTON_XDG_CACHE_HOME c)) = None \<and>
                fs_files w (PROTON_XDG_CACHE_HOME c) = None)"
    and op: "os_fault x (SysOpen cached_cert) = None"
    and wr: "os_fault x (SysWrite cached_cert) = None"
    and nd: "cached_cert \<notin> fs_dirs w"
    and ne: "cached_cert \<noteq> PROTON_XDG_CACHE_HOME c"
  shows "generate_openvpn_cert c x servername ip_list cached_cert protocol w =
         (Inr (PyStr cached_cert),
          w\<lparr>fs_dirs := insert (PROTON_XDG_CACHE_HOME c) (fs_dirs w),
            fs_files := (fs_files w)(cached_cert \<mapsto> text),
            effects := effects w @
              [GetTemplate (TEMPLATES c) (OPENVPN_TEMPLATE c), IsDir (PROTON_XDG_CACHE_HOME c)] @
              (if PROTON_XDG_CACHE_HOME c \<in> fs_dirs w then [] else [Mkdir (PROTON_XDG_CACHE_HOME c)]) @
              [OpenW cached_cert,
               Render \<lparr>openvpn_protocol = protocol, serverlist = ip_list, openvpn_ports = [port]\<rparr>,
               Write cached_cert text]\<rparr>)"
  using assms
  by (auto simp: generate_openvpn_cert_def os_defs emit_def Let_def insert_absorb)


lemma check_protocol:
  "\<not> isinstance_str protocol \<Longrightarrow>
   generate_vpn_cert c x protocol session servername ip_list cached_cert w =
     (Inl (TypeError [Lit ''Incorrect object type, str is expected but got '',
                      TypeOf protocol, Lit '' instead'']), w)"
  by (cases protocol) (simp_all add: generate_vpn_cert_def)

lemma check_session:
  "\<not> isinstance_Session session \<Longrightarrow>
   generate_vpn_cert c x (PyStr p) session servername ip_list cached_cert w =
     (Inl (TypeError [Lit ''Incorrect object type, '', TypeOfClass ''Session'',
                      Lit '' is expected but got '', TypeOf (PyStr p),
                      Lit '' instead'']), w)"
  by (cases session) (simp_all add: generate_vpn_cert_def)

lemma check_servername:
  "\<not> isinstance_str servername \<Longrightarrow>
   generate_vpn_cert c x (PyStr p) (PySession h) servername ip_list cached_cert w =
     (Inl (TypeError [Lit ''Incorrect object type, str is expected but got '',
                      TypeOf servername, Lit '' instead'']), w)"
  by (cases servername) (simp_all add: generate_vpn_cert_def)

lemma check_ip_list:
  "\<not> isinstance_list ip_list \<Longrightarrow>
   generate_vpn_cert c x (PyStr p) (PySession h) (PyStr s) ip_list cached_cert w =
     (Inl (TypeError [Lit ''Incorrect object type, list is expected but got '',
                      TypeOf ip_list, Lit '' instead'']), w)"
  by (cases ip_list) (simp_all add: generate_vpn_cert_def)

lemma check_empty:
  "generate_vpn_cert c x (PyStr p) (PySession h) (PyStr s) (PyList []) cached_cert w =
     (Inl (ValueError ''No servers were provided''), w)"
  by (simp add: generate_vpn_cert_def)


lemmas run_defs =
  generate_vpn_cert_def dispatch_def protocol_dict_def handle_dispatch_def
  generate_openvpn_cert_def generate_strongswan_cert_def generate_wireguard_cert_def
  ports_def save_servername_def save_protocol_def capture_exception_def
  ensure_cache_dir_def os_path_isdir_def os_mkdir_def open_w_def file_write_def
  os_remove_def delete_cached_certificate_def emit_def new_effects_def Let_def

lemmas example_defs =
  example_constants_def example_world_def cached_world_def example_render_def
  example_externals_def no_template_externals_def keyerror_externals_def
  undefined_externals_def include_missing_externals_def readonly_externals_def
  enums_distinct_def

lemma example_enums_distinct: "enums_distinct example_constants"
  by (simp add: enums_distinct_def example_constants_def)

text \<open>The handler, one clause at a time.\<close>

lemma handle_dispatch_KeyError:
  "handle_dispatch (Inl (KeyError k), w) = (Inl (IllegalVPNProtocol (KeyError k)), w)"
  by (simp add: handle_dispatch_def)

lemma handle_dispatch_TemplateNotFound:
  "is_TemplateNotFound e \<Longrightarrow>
   handle_dispatch (Inl e, w) = (Inl (TemplateNotFound (ArgExn e)), w)"
  by (cases e) (simp_all add: handle_dispatch_def)

lemma handle_dispatch_other:
  "\<not> is_KeyError e \<Longrightarrow> \<not> is_TemplateNotFound e \<Longrightarrow>
   handle_dispatch (Inl e, w) = (Inr PyNone, emit (CaptureException e) w)"
  by (simp add: handle_dispatch_def capture_exception_def)

lemma generate_openvpn_cert_no_template:
  assumes "ports c protocol = Some port"
    and "get_template x (TEMPLATES c) (OPENVPN_TEMPLATE c) = Inl e"
  shows "generate_openvpn_cert c x servername ip_list cached_cert protocol w =
         (Inl e, emit (GetTemplate (TEMPLATES c) (OPENVPN_TEMPLATE c)) w)"
  using assms by (simp add: generate_openvpn_cert_def)

lemma vpn_cert_no_template:
  assumes "enums_distinct c"
    and "protocol = ProtocolEnum_TCP c \<or> protocol = ProtocolEnum_UDP c"
    and "ip_list \<noteq> []"
    and "get_template x (TEMPLATES c) (OPENVPN_TEMPLATE c) = Inl e"
  shows "generate_vpn_cert c x (PyStr protocol) (PySession h) (PyStr servername)
           (PyList ip_list) cached_cert w =
         handle_dispatch (Inl e, emit (GetTemplate (TEMPLATES c) (OPENVPN_TEMPLATE c))
           (save_protocol protocol (save_servername servername w)))"
  using generate_openvpn_cert_no_template [OF ports_openvpn [OF assms(1,2)] assms(4)]
    protocol_dict_openvpn [OF assms(1,2)]
  by (simp add: generate_vpn_cert_valid [OF assms(3)] dispatch_def)


lemma extends_refl: "extends w w"
  by (simp add: extends_def)

lemma extends_trans: "extends w w1 \<Longrightarrow> extends w1 w2 \<Longrightarrow> extends w w2"
  by (auto simp: extends_def)

lemma extends_emit: "\<not> is_save ev \<Longrightarrow> extends w (emit ev w)"
  by (simp add: extends_def)

lemma extends_mkdir: "extends w (snd (os_mkdir x p w))"
  by (simp add: os_mkdir_def extends_def Let_def split: option.splits)

lemma extends_open_w: "extends w (snd (open_w x p w))"
  by (simp add: open_w_def extends_def Let_def split: option.splits)

lemma extends_file_write: "extends w (snd (file_write x p t w))"
  by (simp add: file_write_def extends_def Let_def split: option.splits)

lemma extends_ensure: "extends w (snd (ensure_cache_dir c x w))"
proof -
  have 1: "extends w (emit (IsDir (PROTON_XDG_CACHE_HOME c)) w)"
    by (simp add: extends_emit)
  have 2: "extends (emit (IsDir (PROTON_XDG_CACHE_HOME c)) w)
             (snd (os_mkdir x (PROTON_XDG_CACHE_HOME c) (emit (IsDir (PROTON_XDG_CACHE_HOME c)) w)))"
    by (rule extends_mkdir)
  show ?thesis
    using 1 extends_trans [OF 1 2] by (simp add: ensure_cache_dir_def os_path_isdir_def)
qed

lemma extends_openvpn:
  "extends w (snd (generate_openvpn_cert c x servername ip_list cached_cert protocol w))"
proof (cases "ports c protocol")
  case None
  then show ?thesis by (simp add: generate_openvpn_cert_def extends_refl)
next
  case (Some port)
  let ?w1 = "emit (GetTemplate (TEMPLATES c) (OPENVPN_TEMPLATE c)) w"
  have e1: "extends w ?w1" by (simp add: extends_emit)
  show ?thesis
  proof (cases "get_template x (TEMPLATES c) (OPENVPN_TEMPLATE c)")
    case (Inl e)
    with Some e1 show ?thesis by (simp add: generate_openvpn_cert_def)
  next
    case (Inr template)
    obtain r2 w2 where r2: "ensure_cache_dir c x ?w1 = (r2, w2)" by (cases "ensure_cache_dir c x ?w1")
    have e2: "extends w w2" using extends_trans [OF e1 extends_ensure [of ?w1 c x]] r2 by simp
    show ?thesis
    proof (cases r2)
      case (Inl e)
      with Some Inr r2 e2 show ?thesis by (simp add: generate_openvpn_cert_def)
    next
      case ok2: (Inr u)
      obtain r3 w3 where r3: "open_w x cached_cert w2 = (r3, w3)" by (cases "open_w x cached_cert w2")
      have e3: "extends w w3" using extends_trans [OF e2 extends_open_w [of w2 x cached_cert]] r3 by simp
      show ?thesis
      proof (cases r3)
        case (Inl e)
        with Some Inr r2 ok2 r3 e3 show ?thesis by (simp add: generate_openvpn_cert_def)
      next
        case ok3: (Inr u3)
        let ?v = "\<lparr>openvpn_protocol = protocol, serverlist = ip_list, openvpn_ports = [port]\<rparr>"
        let ?w4 = "emit (Render ?v) w3"
        have e4: "extends w ?w4" using extends_trans [OF e3 extends_emit [of "Render ?v" w3]] by simp
        show ?thesis
        proof (cases "template ?v")
          case (Inl e)
          with Some Inr r2 ok2 r3 ok3 e4 show ?thesis by (simp add: generate_openvpn_cert_def)
        next
          case rend: (Inr rendered)
          obtain r5 w5 where r5: "file_write x cached_cert rendered ?w4 = (r5, w5)"
            by (cases "file_write x cached_cert rendered ?w4")
          have e5: "extends w w5"
            using extends_trans [OF e4 extends_file_write [of ?w4 x cached_cert rendered]] r5 by simp
          from Some Inr r2 ok2 r3 ok3 rend r5 e5 show ?thesis
            by (cases r5) (simp_all add: generate_openvpn_cert_def)
        qed
      qed
    qed
  qed
qed

lemma extends_dispatch:
  "extends w (snd (dispatch c x servername ip_list cached_cert protocol w))"
proof (cases "protocol_dict c x protocol")
  case None
  then show ?thesis by (simp add: dispatch_def extends_refl)
next
  case (Some g)
  then have "g = generate_openvpn_cert c x \<or> g = generate_strongswan_cert \<or> g = generate_wireguard_cert"
    by (auto simp: protocol_dict_def split: if_splits)
  then have "extends w (snd (g servername ip_list cached_cert protocol w))"
    by (auto simp: extends_openvpn generate_strongswan_cert_def generate_wireguard_cert_def extends_emit)
  with Some show ?thesis by (simp add: dispatch_def)
qed

lemma extends_handle: "extends w (snd r) \<Longrightarrow> extends w (snd (handle_dispatch r))"
proof (cases r)
  case (Pair a w')
  assume e: "extends w (snd r)"
  have "extends w' (emit (CaptureException ex) w')" for ex by (simp add: extends_emit)
  then have "extends w (emit (CaptureException ex) w')" for ex
    using e Pair extends_trans by fastforce
  with e Pair show ?thesis
    by (cases a) (simp_all add: handle_dispatch_def capture_exception_def)
qed



text \<open>Where the open of the cache file stands among the events of the generator.\<close>

lemma ensure_cache_dir_cases:
  assumes "ensure_cache_dir c x w = (r, w')"
  shows "(r = Inr () \<and> PROTON_XDG_CACHE_HOME c \<in> fs_dirs w' \<and>
          (effects w' = effects w @ [IsDir (PROTON_XDG_CACHE_HOME c)] \<or>
           effects w' = effects w @ [IsDir (PROTON_XDG_CACHE_HOME c),
                                     Mkdir (PROTON_XDG_CACHE_HOME c)])) \<or>
         ((\<exists>e. r = Inl e) \<and>
          effects w' = effects w @ [IsDir (PROTON_XDG_CACHE_HOME c),
                                    Mkdir (PROTON_XDG_CACHE_HOME c)])"
  using assms
  by (auto simp: ensure_cache_dir_def os_path_isdir_def os_mkdir_def Let_def
        split: if_splits option.splits)

lemma open_w_frame:
  assumes "open_w x p w = (r, w')"
  shows "fs_dirs w' = fs_dirs w \<and> effects w' = effects w @ [OpenW p]"
  using assms by (auto simp: open_w_def Let_def split: if_splits option.splits)

lemma file_write_frame:
  assumes "file_write x p t w = (r, w')"
  shows "fs_dirs w' = fs_dirs w \<and> effects w' = effects w @ [Write p t]"
  using assms by (auto simp: file_write_def Let_def split: if_splits option.splits)

lemma openvpn_open_after_isdir:
  assumes o: "OpenW cached_cert \<in> set (new_effects w
              (snd (generate_openvpn_cert c x servername ip_list cached_cert protocol w)))"
  shows "PROTON_XDG_CACHE_HOME c \<in>
           fs_dirs (snd (generate_openvpn_cert c x servername ip_list cached_cert protocol w)) \<and>
         take 2 (new_effects w
           (snd (generate_openvpn_cert c x servername ip_list cached_cert protocol w))) =
           [GetTemplate (TEMPLATES c) (OPENVPN_TEMPLATE c), IsDir (PROTON_XDG_CACHE_HOME c)]"
proof (cases "ports c protocol")
  case None
  with o show ?thesis by (simp add: generate_openvpn_cert_def new_effects_def)
next
  case (Some port)
  let ?home = "PROTON_XDG_CACHE_HOME c"
  let ?w1 = "emit (GetTemplate (TEMPLATES c) (OPENVPN_TEMPLATE c)) w"
  show ?thesis
  proof (cases "get_template x (TEMPLATES c) (OPENVPN_TEMPLATE c)")
    case (Inl e)
    with Some o show ?thesis by (simp add: generate_openvpn_cert_def new_effects_def)
  next
    case (Inr template)
    obtain r2 w2 where r2: "ensure_cache_dir c x ?w1 = (r2, w2)"
      by (cases "ensure_cache_dir c x ?w1")
    note e2 = ensure_cache_dir_cases [OF r2]
    show ?thesis
    proof (cases r2)
      case (Inl e)
      with e2 have "effects w2 = effects ?w1 @ [IsDir ?home, Mkdir ?home]" by simp
      with Some Inr r2 Inl o show ?thesis
        by (simp add: generate_openvpn_cert_def new_effects_def)
    next
      case ok2: (Inr u)
      with e2 have h2: "?home \<in> fs_dirs w2"
        and f2: "effects w2 = effects ?w1 @ [IsDir ?home] \<or>
                 effects w2 = effects ?w1 @ [IsDir ?home, Mkdir ?home]"
        by simp_all
      have goal: "?home \<in> fs_dirs w' \<and> take 2 (new_effects w w') =
           [GetTemplate (TEMPLATES c) (OPENVPN_TEMPLATE c), IsDir ?home]"
        if "fs_dirs w' = fs_dirs w2" and "effects w' = effects w2 @ more" for w' more
        using that h2 f2 by (auto simp: new_effects_def)
      obtain r3 w3 where r3: "open_w x cached_cert w2 = (r3, w3)"
        by (cases "open_w x cached_cert w2")
      note e3 = open_w_frame [OF r3]
      show ?thesis
      proof (cases r3)
        case (Inl e)
        have "snd (generate_openvpn_cert c x servername ip_list cached_cert protocol w) = w3"
          using Some Inr r2 ok2 r3 Inl by (simp add: generate_openvpn_cert_def)
        with goal [of w3 "[OpenW cached_cert]"] e3 show ?thesis by simp
      next
        case ok3: (Inr u3)
        let ?v = "\<lparr>openvpn_protocol = protocol, serverlist = ip_list, openvpn_ports = [port]\<rparr>"
        let ?w4 = "emit (Render ?v) w3"
        show ?thesis
        proof (cases "template ?v")
          case (Inl e)
          have "snd (generate_openvpn_cert c x servername ip_list cached_cert protocol w) = ?w4"
            using Some Inr r2 ok2 r3 ok3 Inl by (simp add: generate_openvpn_cert_def)
          with goal [of ?w4 "[OpenW cached_cert, Render ?v]"] e3 show ?thesis by simp
        next
          case rend: (Inr rendered)
          obtain r5 w5 where r5: "file_write x cached_cert rendered ?w4 = (r5, w5)"
            by (cases "file_write x cached_cert rendered ?w4")
          note e5 = file_write_frame [OF r5]
          have "snd (generate_openvpn_cert c x servername ip_list cached_cert protocol w) = w5"
            using Some Inr r2 ok2 r3 ok3 rend r5
            by (cases r5) (simp_all add: generate_openvpn_cert_def)
          with goal [of w5 "[OpenW cached_cert, Render ?v, Write cached_cert rendered]"] e3 e5
          show ?thesis by simp
        qed
      qed
    qed
  qed
qed

lemma open_after:
  assumes "OpenW p \<in> set evs" and "take 2 evs = [a, IsDir d]" and "a \<noteq> OpenW p"
  shows "\<exists>pre post. evs = pre @ OpenW p # post \<and> IsDir d \<in> set pre"
proof -
  have e: "evs = [a, IsDir d] @ drop 2 evs"
    using assms(2) append_take_drop_id [of 2 evs] by simp
  have "set evs = {a, IsDir d} \<union> set (drop 2 evs)"
    by (subst e) simp
  with assms(1,3) have "OpenW p \<in> set (drop 2 evs)"
    by auto
  then obtain ys zs where "drop 2 evs = ys @ OpenW p # zs"
    by (auto dest: split_list)
  with e have "evs = ([a, IsDir d] @ ys) @ OpenW p # zs \<and> IsDir d \<in> set ([a, IsDir d] @ ys)"
    by simp
  then show ?thesis by blast
qed

section \<open>The OpenVPN path\<close>

text \<open>
  C1. For a protocol in {TCP, UDP}, a valid session, any servername string and a
  non-empty list of addresses, \<open>generate_vpn_cert\<close> returns the cache path, and the file
  at that path holds exactly what the template renders from the variables
  \<open>openvpn_protocol\<close> = the protocol, \<open>serverlist\<close> = the list in its order,
  \<open>openvpn_ports\<close> = the one-element list of the port member of that protocol. The
  collaborators succeed: the template is found and renders, the operating system
  refuses neither the directory, the open nor the write, and the cache path is not a
  directory. The events show that the template was rendered once, from these variables.
\<close>

theorem generate_vpn_cert_openvpn:
  fixes c x protocol h servername ip_list cached_cert w template rendered
  defines "home \<equiv> PROTON_XDG_CACHE_HOME c"
    and "vars \<equiv> \<lparr>openvpn_protocol = protocol, serverlist = ip_list,
                 openvpn_ports = [if protocol = ProtocolEnum_TCP c then ProtocolPortEnum_TCP
                                  else ProtocolPortEnum_UDP]\<rparr>"
    and "r \<equiv> generate_vpn_cert c x (PyStr protocol) (PySession h) (PyStr servername)
               (PyList ip_list) cached_cert w"
  assumes enums: "enums_distinct c"
    and proto: "protocol = ProtocolEnum_TCP c \<or> protocol = ProtocolEnum_UDP c"
    and nonempty: "ip_list \<noteq> []"
    and found: "get_template x (TEMPLATES c) (OPENVPN_TEMPLATE c) = Inr template"
    and renders: "template vars = Inr rendered"
    and dir_ok: "home \<in> fs_dirs w \<or>
                 (os_fault x (SysMkdir home) = None \<and> fs_files w home = None)"
    and open_ok: "os_fault x (SysOpen cached_cert) = None"
    and write_ok: "os_fault x (SysWrite cached_cert) = None"
    and not_dir: "cached_cert \<notin> fs_dirs w"
    and not_home: "cached_cert \<noteq> home"
  shows "fst r = Inr (PyStr cached_cert) \<and>
         fs_files (snd r) cached_cert = Some rendered \<and>
         new_effects w (snd r) =
           [SaveServername servername, SaveProtocol protocol,
            GetTemplate (TEMPLATES c) (OPENVPN_TEMPLATE c), IsDir home] @
           (if home \<in> fs_dirs w then [] else [Mkdir home]) @
           [OpenW cached_cert, Render vars, Write cached_cert rendered]"
proof -
  let ?w2 = "save_protocol protocol (save_servername servername w)"
  have d: "dispatch c x servername ip_list cached_cert protocol ?w2 =
           generate_openvpn_cert c x servername ip_list cached_cert protocol ?w2"
    using protocol_dict_openvpn [OF enums proto] by (simp add: dispatch_def)
  have g: "generate_openvpn_cert c x servername ip_list cached_cert protocol ?w2 =
         (Inr (PyStr cached_cert),
          ?w2\<lparr>fs_dirs := insert (PROTON_XDG_CACHE_HOME c) (fs_dirs ?w2),
            fs_files := (fs_files ?w2)(cached_cert \<mapsto> rendered),
            effects := effects ?w2 @
              [GetTemplate (TEMPLATES c) (OPENVPN_TEMPLATE c), IsDir (PROTON_XDG_CACHE_HOME c)] @
              (if PROTON_XDG_CACHE_HOME c \<in> fs_dirs ?w2 then []
               else [Mkdir (PROTON_XDG_CACHE_HOME c)]) @
              [OpenW cached_cert, Render vars, Write cached_cert rendered]\<rparr>)"
    unfolding vars_def
    apply (rule generate_openvpn_cert_success [OF ports_openvpn [OF enums proto] found])
    using renders dir_ok open_ok write_ok not_dir not_home
    by (simp_all add: save_protocol_def save_servername_def vars_def home_def)
  show ?thesis
    unfolding r_def generate_vpn_cert_valid [OF nonempty] d g
    by (simp add: handle_dispatch_def save_protocol_def save_servername_def home_def
          new_effects_def)
qed

theorem generate_vpn_cert_openvpn_witness:
  "enums_distinct example_constants \<and>
   fst (generate_vpn_cert example_constants example_externals (PyStr ''tcp'') (PySession 0)
          (PyStr ''CH#1'') (PyList [PyStr ''1.2.3.4'', PyStr ''5.6.7.8''])
          ''/tmp/cert.ovpn'' example_world) = Inr (PyStr ''/tmp/cert.ovpn'') \<and>
   fs_files (snd (generate_vpn_cert example_constants example_externals (PyStr ''tcp'')
          (PySession 0) (PyStr ''CH#1'') (PyList [PyStr ''1.2.3.4'', PyStr ''5.6.7.8''])
          ''/tmp/cert.ovpn'' example_world)) ''/tmp/cert.ovpn'' =
     Some ''proto tcp; remote 1.2.3.4; remote 5.6.7.8; port tcp''"
proof -
  have found: "get_template example_externals (TEMPLATES example_constants)
                 (OPENVPN_TEMPLATE example_constants) = Inr example_render"
    by (simp add: example_externals_def)
  have renders: "example_render
      \<lparr>openvpn_protocol = ''tcp'', serverlist = [PyStr ''1.2.3.4'', PyStr ''5.6.7.8''],
       openvpn_ports = [if ''tcp'' = ProtocolEnum_TCP example_constants
                        then ProtocolPortEnum_TCP else ProtocolPortEnum_UDP]\<rparr> =
      Inr ''proto tcp; remote 1.2.3.4; remote 5.6.7.8; port tcp''"
    by (simp add: example_render_def example_constants_def)
  have proto: "''tcp'' = ProtocolEnum_TCP example_constants \<or>
               ''tcp'' = ProtocolEnum_UDP example_constants"
    by (simp add: example_constants_def)
  have dir_ok: "PROTON_XDG_CACHE_HOME example_constants \<in> fs_dirs example_world \<or>
      (os_fault example_externals (SysMkdir (PROTON_XDG_CACHE_HOME example_constants)) = None \<and>
       fs_files example_world (PROTON_XDG_CACHE_HOME example_constants) = None)"
    by (simp add: example_externals_def example_world_def)
  have open_ok: "os_fault example_externals (SysOpen ''/tmp/cert.ovpn'') = None"
    and write_ok: "os_fault example_externals (SysWrite ''/tmp/cert.ovpn'') = None"
    by (simp_all add: example_externals_def)
  have not_dir: "''/tmp/cert.ovpn'' \<notin> fs_dirs example_world"
    by (simp add: example_world_def)
  have not_home: "''/tmp/cert.ovpn'' \<noteq> PROTON_XDG_CACHE_HOME example_constants"
    by (simp add: example_constants_def)
  have nonempty: "[PyStr ''1.2.3.4'', PyStr ''5.6.7.8''] \<noteq> []"
    by simp
  from generate_vpn_cert_openvpn [OF example_enums_distinct proto nonempty found renders
      dir_ok open_ok write_ok not_dir not_home, of 0 "''CH#1''"]
  show ?thesis
    using example_enums_distinct by simp
qed

section \<open>Validation\<close>

text \<open>
  C2. \<open>generate_vpn_cert\<close> makes five checks in this order: the protocol is a string,
  the session is a Session, the servername is a string, the list of addresses is a
  list (each raising a TypeError), and the list is not empty (raising
  ValueError, with the message \<^verbatim>\<open>No servers were provided\<close>, whatever the protocol
  string). The first check that fails raises at once and leaves the world as it was:
  nothing is recorded, nothing is dispatched, no file is written. When all five pass
  there is no further check: the call is the dispatch on the recorded state.
\<close>

theorem generate_vpn_cert_validation:
  fixes c x protocol session servername ip_list cached_cert w
  defines "r \<equiv> generate_vpn_cert c x protocol session servername ip_list cached_cert w"
  shows
    "(\<not> isinstance_str protocol \<longrightarrow>
        r = (Inl (TypeError [Lit ''Incorrect object type, str is expected but got '',
                             TypeOf protocol, Lit '' instead'']), w)) \<and>
     (isinstance_str protocol \<and> \<not> isinstance_Session session \<longrightarrow>
        r = (Inl (TypeError [Lit ''Incorrect object type, '', TypeOfClass ''Session'',
                             Lit '' is expected but got '', TypeOf protocol,
                             Lit '' instead'']), w)) \<and>
     (isinstance_str protocol \<and> isinstance_Session session \<and>
      \<not> isinstance_str servername \<longrightarrow>
        r = (Inl (TypeError [Lit ''Incorrect object type, str is expected but got '',
                             TypeOf servername, Lit '' instead'']), w)) \<and>
     (isinstance_str protocol \<and> isinstance_Session session \<and> isinstance_str servername \<and>
      \<not> isinstance_list ip_list \<longrightarrow>
        r = (Inl (TypeError [Lit ''Incorrect object type, list is expected but got '',
                             TypeOf ip_list, Lit '' instead'']), w)) \<and>
     (isinstance_str protocol \<and> isinstance_Session session \<and> isinstance_str servername \<and>
      ip_list = PyList [] \<longrightarrow>
        r = (Inl (ValueError ''No servers were provided''), w)) \<and>
     (\<forall>p h s ips. protocol = PyStr p \<and> session = PySession h \<and> servername = PyStr s \<and>
        ip_list = PyList ips \<and> ips \<noteq> [] \<longrightarrow>
        r = handle_dispatch (dispatch c x s ips cached_cert p
              (save_protocol p (save_servername s w))))"
proof (intro conjI impI allI)
  assume "\<not> isinstance_str protocol"
  then show "r = (Inl (TypeError [Lit ''Incorrect object type, str is expected but got '',
                             TypeOf protocol, Lit '' instead'']), w)"
    unfolding r_def by (rule check_protocol)
next
  assume a: "isinstance_str protocol \<and> \<not> isinstance_Session session"
  then obtain p where p: "protocol = PyStr p" by (cases protocol) simp_all
  from a have "\<not> isinstance_Session session" by simp
  then show "r = (Inl (TypeError [Lit ''Incorrect object type, '', TypeOfClass ''Session'',
                             Lit '' is expected but got '', TypeOf protocol,
                             Lit '' instead'']), w)"
    unfolding r_def p by (rule check_session)
next
  assume a: "isinstance_str protocol \<and> isinstance_Session session \<and>
             \<not> isinstance_str servername"
  then obtain p where p: "protocol = PyStr p" by (cases protocol) simp_all
  from a obtain h where h: "session = PySession h" by (cases session) simp_all
  from a have "\<not> isinstance_str servername" by simp
  then show "r = (Inl (TypeError [Lit ''Incorrect object type, str is expected but got '',
                             TypeOf servername, Lit '' instead'']), w)"
    unfolding r_def p h by (rule check_servername)
next
  assume a: "isinstance_str protocol \<and> isinstance_Session session \<and>
             isinstance_str servername \<and> \<not> isinstance_list ip_list"
  then obtain p where p: "protocol = PyStr p" by (cases protocol) simp_all
  from a obtain h where h: "session = PySession h" by (cases session) simp_all
  from a obtain s where s: "servername = PyStr s" by (cases servername) simp_all
  from a have "\<not> isinstance_list ip_list" by simp
  then show "r = (Inl (TypeError [Lit ''Incorrect object type, list is expected but got '',
                             TypeOf ip_list, Lit '' instead'']), w)"
    unfolding r_def p h s by (rule check_ip_list)
next
  assume a: "isinstance_str protocol \<and> isinstance_Session session \<and>
             isinstance_str servername \<and> ip_list = PyList []"
  then obtain p where p: "protocol = PyStr p" by (cases protocol) simp_all
  from a obtain h where h: "session = PySession h" by (cases session) simp_all
  from a obtain s where s: "servername = PyStr s" by (cases servername) simp_all
  from a have l: "ip_list = PyList []" by simp
  show "r = (Inl (ValueError ''No servers were provided''), w)"
    unfolding r_def p h s l by (rule check_empty)
next
  fix p h s ips
  assume a: "protocol = PyStr p \<and> session = PySession h \<and> servername = PyStr s \<and>
             ip_list = PyList ips \<and> ips \<noteq> []"
  then have n: "ips \<noteq> []" by simp
  from a show "r = handle_dispatch (dispatch c x s ips cached_cert p
              (save_protocol p (save_servername s w)))"
    unfolding r_def by (simp add: generate_vpn_cert_valid [OF n])
qed

theorem generate_vpn_cert_validation_witness:
  "generate_vpn_cert example_constants example_externals (PyInt 443) (PyInt 0) (PyInt 1)
     (PyList []) ''/tmp/cert.ovpn'' example_world =
     (Inl (TypeError [Lit ''Incorrect object type, str is expected but got '',
                      TypeOf (PyInt 443), Lit '' instead'']), example_world) \<and>
   generate_vpn_cert example_constants example_externals (PyStr ''tcp'') PyNone (PyInt 1)
     (PyList []) ''/tmp/cert.ovpn'' example_world =
     (Inl (TypeError [Lit ''Incorrect object type, '', TypeOfClass ''Session'',
                      Lit '' is expected but got '', TypeOf (PyStr ''tcp''),
                      Lit '' instead'']), example_world) \<and>
   generate_vpn_cert example_constants example_externals (PyStr ''tcp'') (PySession 0)
     (PyInt 1) (PyList []) ''/tmp/cert.ovpn'' example_world =
     (Inl (TypeError [Lit ''Incorrect object type, str is expected but got '',
                      TypeOf (PyInt 1), Lit '' instead'']), example_world) \<and>
   generate_vpn_cert example_constants example_externals (PyStr ''tcp'') (PySession 0)
     (PyStr ''CH#1'') (PyStr ''1.2.3.4'') ''/tmp/cert.ovpn'' example_world =
     (Inl (TypeError [Lit ''Incorrect object type, list is expected but got '',
                      TypeOf (PyStr ''1.2.3.4''), Lit '' instead'']), example_world) \<and>
   generate_vpn_cert example_constants example_externals (PyStr ''bogus'') (PySession 0)
     (PyStr ''CH#1'') (PyList []) ''/tmp/cert.ovpn'' example_world =
     (Inl (ValueError ''No servers were provided''), example_world) \<and>
   generate_vpn_cert example_constants example_externals (PyStr ''ikev2'') (PySession 0)
     (PyStr ''CH#1'') (PyList [PyStr ''1.2.3.4'']) ''/tmp/cert.ovpn'' example_world =
     handle_dispatch (dispatch example_constants example_externals ''CH#1''
       [PyStr ''1.2.3.4''] ''/tmp/cert.ovpn'' ''ikev2''
       (save_protocol ''ikev2'' (save_servername ''CH#1'' example_world)))"
  using
    generate_vpn_cert_validation [of "PyInt 443" example_constants example_externals
      "PyInt 0" "PyInt 1" "PyList []" "''/tmp/cert.ovpn''" example_world]
    generate_vpn_cert_validation [of "PyStr ''tcp''" example_constants example_externals
      PyNone "PyInt 1" "PyList []" "''/tmp/cert.ovpn''" example_world]
    generate_vpn_cert_validation [of "PyStr ''tcp''" example_constants example_externals
      "PySession 0" "PyInt 1" "PyList []" "''/tmp/cert.ovpn''" example_world]
    generate_vpn_cert_validation [of "PyStr ''tcp''" example_constants example_externals
      "PySession 0" "PyStr ''CH#1''" "PyStr ''1.2.3.4''" "''/tmp/cert.ovpn''" example_world]
    generate_vpn_cert_validation [of "PyStr ''bogus''" example_constants example_externals
      "PySession 0" "PyStr ''CH#1''" "PyList []" "''/tmp/cert.ovpn''" example_world]
    generate_vpn_cert_validation [of "PyStr ''ikev2''" example_constants example_externals
      "PySession 0" "PyStr ''CH#1''" "PyList [PyStr ''1.2.3.4'']" "''/tmp/cert.ovpn''"
      example_world]
  by simp

section \<open>Dispatch\<close>

text \<open>
  C3. With arguments of the right types and a non-empty list, a protocol string that is
  none of TCP, UDP, IKEV2, WIREGUARD makes \<open>generate_vpn_cert\<close> raise
  IllegalVPNProtocol, constructed from the KeyError of the lookup in the dispatch
  table; servername and protocol have been recorded by then.
\<close>

theorem generate_vpn_cert_unsupported:
  assumes "protocol \<notin> {ProtocolEnum_TCP c, ProtocolEnum_UDP c,
                         ProtocolEnum_IKEV2 c, ProtocolEnum_WIREGUARD c}"
    and "ip_list \<noteq> []"
  shows "generate_vpn_cert c x (PyStr protocol) (PySession h) (PyStr servername)
           (PyList ip_list) cached_cert w =
         (Inl (IllegalVPNProtocol (KeyError (PyStr protocol))),
          save_protocol protocol (save_servername servername w))"
  using assms
  by (simp add: generate_vpn_cert_valid dispatch_def protocol_dict_def handle_dispatch_def)

theorem generate_vpn_cert_unsupported_witness:
  "''sstp'' \<notin> {ProtocolEnum_TCP example_constants, ProtocolEnum_UDP example_constants,
                ProtocolEnum_IKEV2 example_constants, ProtocolEnum_WIREGUARD example_constants} \<and>
   generate_vpn_cert example_constants example_externals (PyStr ''sstp'') (PySession 0)
     (PyStr ''CH#1'') (PyList [PyStr ''1.2.3.4'']) ''/tmp/cert.ovpn'' example_world =
   (Inl (IllegalVPNProtocol (KeyError (PyStr ''sstp''))),
    save_protocol ''sstp'' (save_servername ''CH#1'' example_world))"
proof -
  have p: "''sstp'' \<notin> {ProtocolEnum_TCP example_constants, ProtocolEnum_UDP example_constants,
                ProtocolEnum_IKEV2 example_constants, ProtocolEnum_WIREGUARD example_constants}"
    by (simp add: example_constants_def)
  have n: "[PyStr ''1.2.3.4''] \<noteq> []" by simp
  from generate_vpn_cert_unsupported [OF p n] p show ?thesis by simp
qed

text \<open>
  C4. For IKEV2 and WIREGUARD, with arguments that pass the validation,
  \<open>generate_vpn_cert\<close> returns \<open>True\<close> whatever the servername, the addresses and the
  cache path are. The generator it selects only prints: after the two recordings the
  single event of the call is that print, so no template is looked up or rendered, and
  files and directories are as before.
\<close>

theorem generate_vpn_cert_stubs:
  fixes c x protocol h servername ip_list cached_cert w
  defines "r \<equiv> generate_vpn_cert c x (PyStr protocol) (PySession h) (PyStr servername)
               (PyList ip_list) cached_cert w"
  assumes "enums_distinct c"
    and "protocol = ProtocolEnum_IKEV2 c \<or> protocol = ProtocolEnum_WIREGUARD c"
    and "ip_list \<noteq> []"
  shows "fst r = Inr (PyBool True) \<and>
         fs_files (snd r) = fs_files w \<and> fs_dirs (snd r) = fs_dirs w \<and>
         new_effects w (snd r) =
           [SaveServername servername, SaveProtocol protocol,
            Print (if protocol = ProtocolEnum_IKEV2 c then ''Generate Strongswan''
                   else ''Generate wireguard'')]"
  using assms(2-4) unfolding r_def
  by (auto simp: generate_vpn_cert_valid dispatch_def protocol_dict_def handle_dispatch_def
        enums_distinct_def generate_strongswan_cert_def generate_wireguard_cert_def
        save_protocol_def save_servername_def new_effects_def)

theorem generate_vpn_cert_stubs_witness:
  "fst (generate_vpn_cert example_constants no_template_externals (PyStr ''wireguard'')
          (PySession 0) (PyStr ''CH#1'') (PyList [PyInt 7]) ''/tmp'' example_world) =
     Inr (PyBool True) \<and>
   fs_files (snd (generate_vpn_cert example_constants no_template_externals
          (PyStr ''wireguard'') (PySession 0) (PyStr ''CH#1'') (PyList [PyInt 7]) ''/tmp''
          example_world)) = fs_files example_world \<and>
   new_effects example_world (snd (generate_vpn_cert example_constants no_template_externals
          (PyStr ''wireguard'') (PySession 0) (PyStr ''CH#1'') (PyList [PyInt 7]) ''/tmp''
          example_world)) =
     [SaveServername ''CH#1'', SaveProtocol ''wireguard'', Print ''Generate wireguard'']"
proof -
  have p: "''wireguard'' = ProtocolEnum_IKEV2 example_constants \<or>
           ''wireguard'' = ProtocolEnum_WIREGUARD example_constants"
    by (simp add: example_constants_def)
  have q: "''wireguard'' \<noteq> ProtocolEnum_IKEV2 example_constants"
    by (simp add: example_constants_def)
  have n: "[PyInt 7] \<noteq> []" by simp
  from generate_vpn_cert_stubs [OF example_enums_distinct p n] q show ?thesis by simp
qed

section \<open>Failures of the generator\<close>

text \<open>
  C5 does not hold as stated: the handler does not let the TemplateNotFound through, it
  raises a new one constructed from it (\<^verbatim>\<open>raise jinja2.exceptions.TemplateNotFound(e)\<close>),
  so what reaches the caller is not the error jinja2 raised.
\<close>

theorem template_not_found_identity_counterexample:
  "get_template no_template_externals (TEMPLATES example_constants)
     (OPENVPN_TEMPLATE example_constants) =
     Inl (TemplateNotFound (ArgStr ''openvpn_template.j2'')) \<and>
   fst (generate_vpn_cert example_constants no_template_externals (PyStr ''tcp'') (PySession 0)
          (PyStr ''CH#1'') (PyList [PyStr ''1.2.3.4'']) ''/tmp/cert.ovpn'' example_world) \<noteq>
     Inl (TemplateNotFound (ArgStr ''openvpn_template.j2''))"
proof -
  have p: "''tcp'' = ProtocolEnum_TCP example_constants \<or>
           ''tcp'' = ProtocolEnum_UDP example_constants"
    by (simp add: example_constants_def)
  have n: "[PyStr ''1.2.3.4''] \<noteq> []" by simp
  have g: "get_template no_template_externals (TEMPLATES example_constants)
             (OPENVPN_TEMPLATE example_constants) =
           Inl (TemplateNotFound (ArgStr ''openvpn_template.j2''))"
    by (simp add: no_template_externals_def example_constants_def)
  show ?thesis
    unfolding vpn_cert_no_template [OF example_enums_distinct p n g]
    using g by (simp add: handle_dispatch_def)
qed

text \<open>
  C5, amended. When a TemplateNotFound error comes out of the dispatch, whether the
  template engine does not find the named template or the rendering of the template
  raises it, \<open>generate_vpn_cert\<close> raises a TemplateNotFound error to the caller: a new
  error of the same class, constructed from the one that was raised. The world is the
  one the dispatch left: nothing goes to the crash-report sink, and the state has been
  recorded. For the lookup of the template that world is the recorded state with the
  lookup as its only further event.
\<close>

theorem generate_vpn_cert_template_not_found:
  "(ip_list \<noteq> [] \<and>
    dispatch c x servername ip_list cached_cert protocol
      (save_protocol protocol (save_servername servername w)) = (Inl e, w') \<and>
    is_TemplateNotFound e \<longrightarrow>
    generate_vpn_cert c x (PyStr protocol) (PySession h) (PyStr servername)
      (PyList ip_list) cached_cert w = (Inl (TemplateNotFound (ArgExn e)), w')) \<and>
   (enums_distinct c \<and>
    (protocol = ProtocolEnum_TCP c \<or> protocol = ProtocolEnum_UDP c) \<and>
    ip_list \<noteq> [] \<and>
    get_template x (TEMPLATES c) (OPENVPN_TEMPLATE c) = Inl e \<and>
    is_TemplateNotFound e \<longrightarrow>
    generate_vpn_cert c x (PyStr protocol) (PySession h) (PyStr servername)
      (PyList ip_list) cached_cert w =
      (Inl (TemplateNotFound (ArgExn e)),
       emit (GetTemplate (TEMPLATES c) (OPENVPN_TEMPLATE c))
         (save_protocol protocol (save_servername servername w))))"
proof (intro conjI impI)
  assume a: "ip_list \<noteq> [] \<and>
    dispatch c x servername ip_list cached_cert protocol
      (save_protocol protocol (save_servername servername w)) = (Inl e, w') \<and>
    is_TemplateNotFound e"
  then have n: "ip_list \<noteq> []"
    and d: "dispatch c x servername ip_list cached_cert protocol
      (save_protocol protocol (save_servername servername w)) = (Inl e, w')"
    and t: "is_TemplateNotFound e"
    by simp_all
  show "generate_vpn_cert c x (PyStr protocol) (PySession h) (PyStr servername)
      (PyList ip_list) cached_cert w = (Inl (TemplateNotFound (ArgExn e)), w')"
    unfolding generate_vpn_cert_valid [OF n] d
    using t by (rule handle_dispatch_TemplateNotFound)
next
  assume a: "enums_distinct c \<and>
    (protocol = ProtocolEnum_TCP c \<or> protocol = ProtocolEnum_UDP c) \<and>
    ip_list \<noteq> [] \<and>
    get_template x (TEMPLATES c) (OPENVPN_TEMPLATE c) = Inl e \<and>
    is_TemplateNotFound e"
  then have en: "enums_distinct c"
    and p: "protocol = ProtocolEnum_TCP c \<or> protocol = ProtocolEnum_UDP c"
    and n: "ip_list \<noteq> []"
    and g: "get_template x (TEMPLATES c) (OPENVPN_TEMPLATE c) = Inl e"
    and t: "is_TemplateNotFound e"
    by simp_all
  show "generate_vpn_cert c x (PyStr protocol) (PySession h) (PyStr servername)
      (PyList ip_list) cached_cert w =
      (Inl (TemplateNotFound (ArgExn e)),
       emit (GetTemplate (TEMPLATES c) (OPENVPN_TEMPLATE c))
         (save_protocol protocol (save_servername servername w)))"
    unfolding vpn_cert_no_template [OF en p n g]
    using t by (rule handle_dispatch_TemplateNotFound)
qed

theorem generate_vpn_cert_template_not_found_witness:
  "generate_vpn_cert example_constants no_template_externals (PyStr ''udp'') (PySession 0)
     (PyStr ''CH#1'') (PyList [PyStr ''1.2.3.4'']) ''/tmp/cert.ovpn'' example_world =
   (Inl (TemplateNotFound (ArgExn (TemplateNotFound (ArgStr ''openvpn_template.j2'')))),
    emit (GetTemplate ''/usr/lib/protonvpn/templates'' ''openvpn_template.j2'')
      (save_protocol ''udp'' (save_servername ''CH#1'' example_world))) \<and>
   fst (dispatch example_constants include_missing_externals ''CH#1'' [PyStr ''1.2.3.4'']
          ''/tmp/cert.ovpn'' ''tcp''
          (save_protocol ''tcp'' (save_servername ''CH#1'' example_world))) =
     Inl (TemplateNotFound (ArgStr ''routes.j2'')) \<and>
   fst (generate_vpn_cert example_constants include_missing_externals (PyStr ''tcp'')
          (PySession 0) (PyStr ''CH#1'') (PyList [PyStr ''1.2.3.4'']) ''/tmp/cert.ovpn''
          example_world) =
     Inl (TemplateNotFound (ArgExn (TemplateNotFound (ArgStr ''routes.j2'')))) \<and>
   fs_files (snd (generate_vpn_cert example_constants include_missing_externals
          (PyStr ''tcp'') (PySession 0) (PyStr ''CH#1'') (PyList [PyStr ''1.2.3.4''])
          ''/tmp/cert.ovpn'' example_world)) ''/tmp/cert.ovpn'' = Some '''' \<and>
   new_effects example_world
     (snd (generate_vpn_cert example_constants include_missing_externals (PyStr ''tcp'')
          (PySession 0) (PyStr ''CH#1'') (PyList [PyStr ''1.2.3.4'']) ''/tmp/cert.ovpn''
          example_world)) =
     [SaveServername ''CH#1'', SaveProtocol ''tcp'',
      GetTemplate ''/usr/lib/protonvpn/templates'' ''openvpn_template.j2'',
      IsDir ''/home/user/.cache/protonvpn'', Mkdir ''/home/user/.cache/protonvpn'',
      OpenW ''/tmp/cert.ovpn'',
      Render \<lparr>openvpn_protocol = ''tcp'', serverlist = [PyStr ''1.2.3.4''],
              openvpn_ports = [ProtocolPortEnum_TCP]\<rparr>]"
proof -
  have p: "''udp'' = ProtocolEnum_TCP example_constants \<or>
           ''udp'' = ProtocolEnum_UDP example_constants"
    by (simp add: example_constants_def)
  have n: "[PyStr ''1.2.3.4''] \<noteq> []" by simp
  have g: "get_template no_template_externals (TEMPLATES example_constants)
             (OPENVPN_TEMPLATE example_constants) =
           Inl (TemplateNotFound (ArgStr ''openvpn_template.j2''))"
    by (simp add: no_template_externals_def example_constants_def)
  have t: "is_TemplateNotFound (TemplateNotFound (ArgStr ''openvpn_template.j2''))"
    and t': "is_TemplateNotFound (TemplateNotFound (ArgStr ''routes.j2''))"
    by simp_all
  have d: "dispatch example_constants include_missing_externals ''CH#1'' [PyStr ''1.2.3.4'']
             ''/tmp/cert.ovpn'' ''tcp''
             (save_protocol ''tcp'' (save_servername ''CH#1'' example_world)) =
           (Inl (TemplateNotFound (ArgStr ''routes.j2'')),
            \<lparr>lastServerName = Some ''CH#1'', lastProtocol = Some ''tcp'',
             fs_dirs = {''/home/user/.cache/protonvpn'', ''/tmp''},
             fs_files = [''/tmp/cert.ovpn'' \<mapsto> ''''],
             effects = [SaveServername ''CH#1'', SaveProtocol ''tcp'',
               GetTemplate ''/usr/lib/protonvpn/templates'' ''openvpn_template.j2'',
               IsDir ''/home/user/.cache/protonvpn'', Mkdir ''/home/user/.cache/protonvpn'',
               OpenW ''/tmp/cert.ovpn'',
               Render \<lparr>openvpn_protocol = ''tcp'', serverlist = [PyStr ''1.2.3.4''],
                       openvpn_ports = [ProtocolPortEnum_TCP]\<rparr>]\<rparr>)"
    by (simp add: run_defs example_defs)
  have lookup: "generate_vpn_cert example_constants no_template_externals (PyStr ''udp'')
       (PySession 0) (PyStr ''CH#1'') (PyList [PyStr ''1.2.3.4'']) ''/tmp/cert.ovpn''
       example_world =
     (Inl (TemplateNotFound (ArgExn (TemplateNotFound (ArgStr ''openvpn_template.j2'')))),
      emit (GetTemplate (TEMPLATES example_constants) (OPENVPN_TEMPLATE example_constants))
        (save_protocol ''udp'' (save_servername ''CH#1'' example_world)))"
    using generate_vpn_cert_template_not_found
            [of "[PyStr ''1.2.3.4'']" example_constants no_template_externals "''CH#1''"
                "''/tmp/cert.ovpn''" "''udp''" example_world
                "TemplateNotFound (ArgStr ''openvpn_template.j2'')" _ 0]
          example_enums_distinct p n g t
    by blast
  have render: "generate_vpn_cert example_constants include_missing_externals (PyStr ''tcp'')
       (PySession 0) (PyStr ''CH#1'') (PyList [PyStr ''1.2.3.4'']) ''/tmp/cert.ovpn''
       example_world =
     (Inl (TemplateNotFound (ArgExn (TemplateNotFound (ArgStr ''routes.j2'')))),
      \<lparr>lastServerName = Some ''CH#1'', lastProtocol = Some ''tcp'',
       fs_dirs = {''/home/user/.cache/protonvpn'', ''/tmp''},
       fs_files = [''/tmp/cert.ovpn'' \<mapsto> ''''],
       effects = [SaveServername ''CH#1'', SaveProtocol ''tcp'',
         GetTemplate ''/usr/lib/protonvpn/templates'' ''openvpn_template.j2'',
         IsDir ''/home/user/.cache/protonvpn'', Mkdir ''/home/user/.cache/protonvpn'',
         OpenW ''/tmp/cert.ovpn'',
         Render \<lparr>openvpn_protocol = ''tcp'', serverlist = [PyStr ''1.2.3.4''],
                 openvpn_ports = [ProtocolPortEnum_TCP]\<rparr>]\<rparr>)"
    using generate_vpn_cert_template_not_found
            [of "[PyStr ''1.2.3.4'']" example_constants include_missing_externals "''CH#1''"
                "''/tmp/cert.ovpn''" "''tcp''" example_world
                "TemplateNotFound (ArgStr ''routes.j2'')" _ 0]
          n d t'
    by blast
  show ?thesis
    unfolding lookup render d
    by (simp add: example_constants_def new_effects_def example_world_def)
qed

text \<open>
  C6 does not hold as stated: a KeyError raised inside the generator is a failure
  during dispatch that is neither the KeyError of the dispatch table nor a
  TemplateNotFound, and it is not sent to the crash-report sink. Here the table finds
  the OpenVPN generator, the rendering raises KeyError, and the caller gets
  IllegalVPNProtocol.
\<close>

theorem capture_exception_counterexample:
  "protocol_dict example_constants keyerror_externals ''udp'' =
     Some (generate_openvpn_cert example_constants keyerror_externals) \<and>
   fst (generate_openvpn_cert example_constants keyerror_externals ''CH#1'' [PyStr ''1.2.3.4'']
          ''/tmp/cert.ovpn'' ''udp''
          (save_protocol ''udp'' (save_servername ''CH#1'' example_world))) =
     Inl (KeyError (PyStr ''port'')) \<and>
   fst (generate_vpn_cert example_constants keyerror_externals (PyStr ''udp'') (PySession 0)
          (PyStr ''CH#1'') (PyList [PyStr ''1.2.3.4'']) ''/tmp/cert.ovpn'' example_world) =
     Inl (IllegalVPNProtocol (KeyError (PyStr ''port''))) \<and>
   CaptureException (KeyError (PyStr ''port'')) \<notin>
     set (effects (snd (generate_vpn_cert example_constants keyerror_externals (PyStr ''udp'')
          (PySession 0) (PyStr ''CH#1'') (PyList [PyStr ''1.2.3.4'']) ''/tmp/cert.ovpn''
          example_world)))"
proof -
  have p: "''udp'' = ProtocolEnum_TCP example_constants \<or>
           ''udp'' = ProtocolEnum_UDP example_constants"
    by (simp add: example_constants_def)
  have g: "generate_openvpn_cert example_constants keyerror_externals ''CH#1''
             [PyStr ''1.2.3.4''] ''/tmp/cert.ovpn'' ''udp''
             (save_protocol ''udp'' (save_servername ''CH#1'' example_world)) =
           (Inl (KeyError (PyStr ''port'')),
            \<lparr>lastServerName = Some ''CH#1'', lastProtocol = Some ''udp'',
             fs_dirs = {''/home/user/.cache/protonvpn'', ''/tmp''},
             fs_files = [''/tmp/cert.ovpn'' \<mapsto> ''''],
             effects = [SaveServername ''CH#1'', SaveProtocol ''udp'',
               GetTemplate ''/usr/lib/protonvpn/templates'' ''openvpn_template.j2'',
               IsDir ''/home/user/.cache/protonvpn'', Mkdir ''/home/user/.cache/protonvpn'',
               OpenW ''/tmp/cert.ovpn'',
               Render \<lparr>openvpn_protocol = ''udp'', serverlist = [PyStr ''1.2.3.4''],
                       openvpn_ports = [ProtocolPortEnum_UDP]\<rparr>]\<rparr>)"
    by (simp add: run_defs example_defs)
  have v: "generate_vpn_cert example_constants keyerror_externals (PyStr ''udp'') (PySession 0)
          (PyStr ''CH#1'') (PyList [PyStr ''1.2.3.4'']) ''/tmp/cert.ovpn'' example_world =
        handle_dispatch (generate_openvpn_cert example_constants keyerror_externals ''CH#1''
             [PyStr ''1.2.3.4''] ''/tmp/cert.ovpn'' ''udp''
             (save_protocol ''udp'' (save_servername ''CH#1'' example_world)))"
    using protocol_dict_openvpn [OF example_enums_distinct p]
    by (simp add: generate_vpn_cert_valid dispatch_def)
  show ?thesis
    unfolding v g handle_dispatch_KeyError
    using protocol_dict_openvpn [OF example_enums_distinct p] by simp
qed

text \<open>
  C6, amended. A failure during dispatch that is no KeyError at all (neither the one of
  the dispatch table nor one raised inside the generator) and no TemplateNotFound goes
  to \<open>capture_exception\<close>; nothing is raised and the call returns \<open>None\<close>.
\<close>

theorem generate_vpn_cert_captures_other:
  assumes "ip_list \<noteq> []"
    and "dispatch c x servername ip_list cached_cert protocol
           (save_protocol protocol (save_servername servername w)) = (Inl e, w')"
    and "\<not> is_KeyError e"
    and "\<not> is_TemplateNotFound e"
  shows "generate_vpn_cert c x (PyStr protocol) (PySession h) (PyStr servername)
           (PyList ip_list) cached_cert w = (Inr PyNone, capture_exception e w') \<and>
         effects (capture_exception e w') = effects w' @ [CaptureException e]"
  unfolding generate_vpn_cert_valid [OF assms(1)] assms(2)
  using handle_dispatch_other [OF assms(3,4)] by (simp add: capture_exception_def)

theorem generate_vpn_cert_captures_other_witness:
  "fst (dispatch example_constants undefined_externals ''CH#1'' [PyStr ''1.2.3.4'']
          ''/tmp/cert.ovpn'' ''tcp''
          (save_protocol ''tcp'' (save_servername ''CH#1'' example_world))) =
     Inl (OtherException ''UndefinedError'') \<and>
   fst (generate_vpn_cert example_constants undefined_externals (PyStr ''tcp'') (PySession 0)
          (PyStr ''CH#1'') (PyList [PyStr ''1.2.3.4'']) ''/tmp/cert.ovpn'' example_world) =
     Inr PyNone \<and>
   new_effects example_world
     (snd (generate_vpn_cert example_constants undefined_externals (PyStr ''tcp'') (PySession 0)
          (PyStr ''CH#1'') (PyList [PyStr ''1.2.3.4'']) ''/tmp/cert.ovpn'' example_world)) =
     [SaveServername ''CH#1'', SaveProtocol ''tcp'',
      GetTemplate ''/usr/lib/protonvpn/templates'' ''openvpn_template.j2'',
      IsDir ''/home/user/.cache/protonvpn'', Mkdir ''/home/user/.cache/protonvpn'',
      OpenW ''/tmp/cert.ovpn'',
      Render \<lparr>openvpn_protocol = ''tcp'', serverlist = [PyStr ''1.2.3.4''],
              openvpn_ports = [ProtocolPortEnum_TCP]\<rparr>,
      CaptureException (OtherException ''UndefinedError'')]"
proof -
  have n: "[PyStr ''1.2.3.4''] \<noteq> []" by simp
  have d: "dispatch example_constants undefined_externals ''CH#1'' [PyStr ''1.2.3.4'']
             ''/tmp/cert.ovpn'' ''tcp''
             (save_protocol ''tcp'' (save_servername ''CH#1'' example_world)) =
           (Inl (OtherException ''UndefinedError''),
            \<lparr>lastServerName = Some ''CH#1'', lastProtocol = Some ''tcp'',
             fs_dirs = {''/home/user/.cache/protonvpn'', ''/tmp''},
             fs_files = [''/tmp/cert.ovpn'' \<mapsto> ''''],
             effects = [SaveServername ''CH#1'', SaveProtocol ''tcp'',
               GetTemplate ''/usr/lib/protonvpn/templates'' ''openvpn_template.j2'',
               IsDir ''/home/user/.cache/protonvpn'', Mkdir ''/home/user/.cache/protonvpn'',
               OpenW ''/tmp/cert.ovpn'',
               Render \<lparr>openvpn_protocol = ''tcp'', serverlist = [PyStr ''1.2.3.4''],
                       openvpn_ports = [ProtocolPortEnum_TCP]\<rparr>]\<rparr>)"
    by (simp add: run_defs example_defs)
  have k: "\<not> is_KeyError (OtherException ''UndefinedError'')"
    and t: "\<not> is_TemplateNotFound (OtherException ''UndefinedError'')"
    by simp_all
  from generate_vpn_cert_captures_other [OF n d k t, of 0] d
  show ?thesis by (simp add: capture_exception_def new_effects_def example_world_def)
qed

text \<open>
  C10. The handler for KeyError covers the whole call of the generator: a KeyError
  that the selected generator raises, and not only a miss in the dispatch table,
  reaches the caller as IllegalVPNProtocol constructed from it, and nothing is sent to
  the crash-report sink (the world is the one the generator left). The OpenVPN
  generator itself raises KeyError, from its dictionary of ports, for a protocol that
  is neither TCP nor UDP.
\<close>

theorem generate_vpn_cert_generator_KeyError:
  "(ip_list \<noteq> [] \<and> protocol_dict c x protocol = Some g \<and>
    g servername ip_list cached_cert protocol
      (save_protocol protocol (save_servername servername w)) = (Inl (KeyError k), w') \<longrightarrow>
    generate_vpn_cert c x (PyStr protocol) (PySession h) (PyStr servername)
      (PyList ip_list) cached_cert w = (Inl (IllegalVPNProtocol (KeyError k)), w')) \<and>
   (other \<notin> {ProtocolEnum_TCP c, ProtocolEnum_UDP c} \<longrightarrow>
    generate_openvpn_cert c x servername ip_list cached_cert other w =
      (Inl (KeyError (PyStr other)), w))"
  by (simp add: generate_vpn_cert_valid dispatch_def handle_dispatch_KeyError
        generate_openvpn_cert_def ports_def)

theorem generate_vpn_cert_generator_KeyError_witness:
  "protocol_dict example_constants keyerror_externals ''tcp'' =
     Some (generate_openvpn_cert example_constants keyerror_externals) \<and>
   fst (generate_vpn_cert example_constants keyerror_externals (PyStr ''tcp'') (PySession 0)
          (PyStr ''CH#1'') (PyList [PyStr ''1.2.3.4'']) ''/tmp/cert.ovpn'' example_world) =
     Inl (IllegalVPNProtocol (KeyError (PyStr ''port''))) \<and>
   new_effects example_world
     (snd (generate_vpn_cert example_constants keyerror_externals (PyStr ''tcp'') (PySession 0)
          (PyStr ''CH#1'') (PyList [PyStr ''1.2.3.4'']) ''/tmp/cert.ovpn'' example_world)) =
     [SaveServername ''CH#1'', SaveProtocol ''tcp'',
      GetTemplate ''/usr/lib/protonvpn/templates'' ''openvpn_template.j2'',
      IsDir ''/home/user/.cache/protonvpn'', Mkdir ''/home/user/.cache/protonvpn'',
      OpenW ''/tmp/cert.ovpn'',
      Render \<lparr>openvpn_protocol = ''tcp'', serverlist = [PyStr ''1.2.3.4''],
              openvpn_ports = [ProtocolPortEnum_TCP]\<rparr>] \<and>
   generate_openvpn_cert example_constants keyerror_externals ''CH#1'' [PyStr ''1.2.3.4'']
     ''/tmp/cert.ovpn'' ''ikev2'' example_world =
     (Inl (KeyError (PyStr ''ikev2'')), example_world)"
proof -
  have p: "''tcp'' = ProtocolEnum_TCP example_constants \<or>
           ''tcp'' = ProtocolEnum_UDP example_constants"
    by (simp add: example_constants_def)
  have pd: "protocol_dict example_constants keyerror_externals ''tcp'' =
     Some (generate_openvpn_cert example_constants keyerror_externals)"
    by (rule protocol_dict_openvpn [OF example_enums_distinct p])
  have g: "generate_openvpn_cert example_constants keyerror_externals ''CH#1''
             [PyStr ''1.2.3.4''] ''/tmp/cert.ovpn'' ''tcp''
             (save_protocol ''tcp'' (save_servername ''CH#1'' example_world)) =
           (Inl (KeyError (PyStr ''port'')),
            \<lparr>lastServerName = Some ''CH#1'', lastProtocol = Some ''tcp'',
             fs_dirs = {''/home/user/.cache/protonvpn'', ''/tmp''},
             fs_files = [''/tmp/cert.ovpn'' \<mapsto> ''''],
             effects = [SaveServername ''CH#1'', SaveProtocol ''tcp'',
               GetTemplate ''/usr/lib/protonvpn/templates'' ''openvpn_template.j2'',
               IsDir ''/home/user/.cache/protonvpn'', Mkdir ''/home/user/.cache/protonvpn'',
               OpenW ''/tmp/cert.ovpn'',
               Render \<lparr>openvpn_protocol = ''tcp'', serverlist = [PyStr ''1.2.3.4''],
                       openvpn_ports = [ProtocolPortEnum_TCP]\<rparr>]\<rparr>)"
    by (simp add: run_defs example_defs)
  have o: "''ikev2'' \<notin> {ProtocolEnum_TCP example_constants, ProtocolEnum_UDP example_constants}"
    by (simp add: example_constants_def)
  from generate_vpn_cert_generator_KeyError
         [of "[PyStr ''1.2.3.4'']" example_constants keyerror_externals "''tcp''"
             "generate_openvpn_cert example_constants keyerror_externals"
             "''CH#1''" "''/tmp/cert.ovpn''" example_world "PyStr ''port''" _ 0 "''ikev2''"]
       pd g o
  show ?thesis by (simp add: new_effects_def example_world_def)
qed

section \<open>Recording of the connection state\<close>

text \<open>
  C7. On every call whose five checks pass, the servername and the protocol are
  recorded into the connection state once each, before the dispatch: the first two
  events of the call are the two recordings, no later event of the call records
  anything, the dispatch runs on the recorded state, and the state holds both values
  when the call ends, however the dispatch ends. In particular it holds them when the
  call raises IllegalVPNProtocol for a protocol that is not in the dispatch table.
\<close>

theorem generate_vpn_cert_records_state:
  fixes c x protocol h servername ip_list cached_cert w
  defines "r \<equiv> generate_vpn_cert c x (PyStr protocol) (PySession h) (PyStr servername)
               (PyList ip_list) cached_cert w"
  assumes "ip_list \<noteq> []"
  shows "lastServerName (snd r) = Some servername \<and>
         lastProtocol (snd r) = Some protocol \<and>
         take 2 (new_effects w (snd r)) = [SaveServername servername, SaveProtocol protocol] \<and>
         filter is_save (new_effects w (snd r)) =
           [SaveServername servername, SaveProtocol protocol] \<and>
         r = handle_dispatch (dispatch c x servername ip_list cached_cert protocol
               (save_protocol protocol (save_servername servername w))) \<and>
         (protocol \<notin> {ProtocolEnum_TCP c, ProtocolEnum_UDP c,
                        ProtocolEnum_IKEV2 c, ProtocolEnum_WIREGUARD c} \<longrightarrow>
            fst r = Inl (IllegalVPNProtocol (KeyError (PyStr protocol))))"
proof -
  let ?w2 = "save_protocol protocol (save_servername servername w)"
  have r: "r = handle_dispatch (dispatch c x servername ip_list cached_cert protocol ?w2)"
    unfolding r_def using assms(2) by (rule generate_vpn_cert_valid)
  have "extends ?w2 (snd r)"
    unfolding r by (rule extends_handle) (rule extends_dispatch)
  then obtain rest where a: "lastServerName (snd r) = Some servername"
      "lastProtocol (snd r) = Some protocol"
    and e: "effects (snd r) =
              effects w @ [SaveServername servername, SaveProtocol protocol] @ rest"
    and f: "filter is_save rest = []"
    by (auto simp: extends_def save_protocol_def save_servername_def)
  have n: "new_effects w (snd r) = [SaveServername servername, SaveProtocol protocol] @ rest"
    by (simp add: new_effects_def e)
  have t: "take 2 (new_effects w (snd r)) = [SaveServername servername, SaveProtocol protocol]"
    and s: "filter is_save (new_effects w (snd r)) =
              [SaveServername servername, SaveProtocol protocol]"
    using f by (simp_all add: n)
  have u: "protocol \<notin> {ProtocolEnum_TCP c, ProtocolEnum_UDP c,
                        ProtocolEnum_IKEV2 c, ProtocolEnum_WIREGUARD c} \<Longrightarrow>
            fst r = Inl (IllegalVPNProtocol (KeyError (PyStr protocol)))"
    unfolding r by (simp add: dispatch_def protocol_dict_def handle_dispatch_def)
  from a t s r u show ?thesis by blast
qed

theorem generate_vpn_cert_records_state_witness:
  "fst (generate_vpn_cert example_constants example_externals (PyStr ''openconnect'')
          (PySession 0) (PyStr ''US-NY#7'') (PyList [PyStr ''10.0.0.1''])
          ''/tmp/cert.ovpn'' cached_world) =
     Inl (IllegalVPNProtocol (KeyError (PyStr ''openconnect''))) \<and>
   lastServerName (snd (generate_vpn_cert example_constants example_externals
          (PyStr ''openconnect'') (PySession 0) (PyStr ''US-NY#7'') (PyList [PyStr ''10.0.0.1''])
          ''/tmp/cert.ovpn'' cached_world)) = Some ''US-NY#7'' \<and>
   lastProtocol (snd (generate_vpn_cert example_constants example_externals
          (PyStr ''openconnect'') (PySession 0) (PyStr ''US-NY#7'') (PyList [PyStr ''10.0.0.1''])
          ''/tmp/cert.ovpn'' cached_world)) = Some ''openconnect'' \<and>
   filter is_save (new_effects cached_world (snd (generate_vpn_cert example_constants
          example_externals (PyStr ''openconnect'') (PySession 0) (PyStr ''US-NY#7'')
          (PyList [PyStr ''10.0.0.1'']) ''/tmp/cert.ovpn'' cached_world))) =
     [SaveServername ''US-NY#7'', SaveProtocol ''openconnect'']"
proof -
  have n: "[PyStr ''10.0.0.1''] \<noteq> []" by simp
  have p: "''openconnect'' \<notin> {ProtocolEnum_TCP example_constants,
             ProtocolEnum_UDP example_constants, ProtocolEnum_IKEV2 example_constants,
             ProtocolEnum_WIREGUARD example_constants}"
    by (simp add: example_constants_def)
  from generate_vpn_cert_records_state [OF n, of example_constants example_externals
         "''openconnect''" 0 "''US-NY#7''" "''/tmp/cert.ovpn''" cached_world] p
  show ?thesis by blast
qed

section \<open>The cache\<close>

text \<open>
  C8. \<open>delete_cached_certificate\<close> removes the file at the path it is given, and the
  removal is its only call: nothing is asked about the path first. When nothing is at
  the path it raises FileNotFoundError; when the path cannot be removed (a
  directory, or the operating system refuses) it raises that error; the error is the
  result of the call, so it is with the caller, and the files are as before. After a
  call that succeeds there is no file at the path, and the call succeeds whenever a
  file is there and the operating system does not refuse.
\<close>

theorem delete_cached_certificate_removes:
  fixes x filename w
  defines "r \<equiv> delete_cached_certificate x filename w"
  shows
    "new_effects w (snd r) = [Remove filename] \<and>
     (os_fault x (SysRemove filename) = None \<and> filename \<notin> fs_dirs w \<and>
      fs_files w filename = None \<longrightarrow> fst r = Inl (FileNotFoundError filename)) \<and>
     (os_fault x (SysRemove filename) = None \<and> filename \<in> fs_dirs w \<longrightarrow>
        fst r = Inl (IsADirectoryError filename)) \<and>
     (\<forall>e. os_fault x (SysRemove filename) = Some e \<longrightarrow> fst r = Inl e) \<and>
     (\<forall>e. fst r = Inl e \<longrightarrow> fs_files (snd r) = fs_files w \<and> fs_dirs (snd r) = fs_dirs w) \<and>
     (fst r = Inr () \<longrightarrow> fs_files (snd r) filename = None \<and> filename \<notin> fs_dirs (snd r)) \<and>
     (\<forall>content. os_fault x (SysRemove filename) = None \<and> filename \<notin> fs_dirs w \<and>
        fs_files w filename = Some content \<longrightarrow>
        fst r = Inr () \<and> fs_files (snd r) = (fs_files w)(filename := None))"
  unfolding r_def delete_cached_certificate_def os_remove_def new_effects_def
  by (cases "os_fault x (SysRemove filename)") (simp_all add: Let_def)

theorem delete_cached_certificate_removes_witness:
  "fs_files cached_world ''/tmp/cert.ovpn'' = Some ''proto tcp'' \<and>
   fst (delete_cached_certificate example_externals ''/tmp/cert.ovpn'' cached_world) = Inr () \<and>
   fs_files (snd (delete_cached_certificate example_externals ''/tmp/cert.ovpn'' cached_world))
     ''/tmp/cert.ovpn'' = None \<and>
   new_effects cached_world
     (snd (delete_cached_certificate example_externals ''/tmp/cert.ovpn'' cached_world)) =
     [Remove ''/tmp/cert.ovpn''] \<and>
   fst (delete_cached_certificate example_externals ''/tmp/cert.ovpn'' example_world) =
     Inl (FileNotFoundError ''/tmp/cert.ovpn'') \<and>
   fst (delete_cached_certificate example_externals ''/tmp'' cached_world) =
     Inl (IsADirectoryError ''/tmp'') \<and>
   fst (delete_cached_certificate readonly_externals ''/tmp/cert.ovpn'' cached_world) =
     Inl (PermissionError ''/tmp/cert.ovpn'') \<and>
   fs_files (snd (delete_cached_certificate readonly_externals ''/tmp/cert.ovpn'' cached_world)) =
     fs_files cached_world"
proof -
  have a: "os_fault example_externals (SysRemove ''/tmp/cert.ovpn'') = None"
    "os_fault example_externals (SysRemove ''/tmp'') = None"
    "os_fault readonly_externals (SysRemove ''/tmp/cert.ovpn'') =
       Some (PermissionError ''/tmp/cert.ovpn'')"
    by (simp_all add: example_externals_def readonly_externals_def)
  have b: "''/tmp/cert.ovpn'' \<notin> fs_dirs cached_world" "''/tmp'' \<in> fs_dirs cached_world"
    "fs_files cached_world ''/tmp/cert.ovpn'' = Some ''proto tcp''"
    "''/tmp/cert.ovpn'' \<notin> fs_dirs example_world"
    "fs_files example_world ''/tmp/cert.ovpn'' = None"
    by (simp_all add: cached_world_def example_world_def)
  from delete_cached_certificate_removes [of cached_world example_externals "''/tmp/cert.ovpn''"]
    delete_cached_certificate_removes [of example_world example_externals "''/tmp/cert.ovpn''"]
    delete_cached_certificate_removes [of cached_world example_externals "''/tmp''"]
    delete_cached_certificate_removes [of cached_world readonly_externals "''/tmp/cert.ovpn''"]
    a b
  show ?thesis by simp
qed

text \<open>
  C9. Before it opens the file, the OpenVPN generator makes sure the cache directory
  exists. When the directory is there, the step succeeds and makes no directory; when
  nothing is at that path (and the operating system does not refuse), the step makes
  it. A step that succeeded leaves the directory in place, and running it again
  succeeds and changes neither directories nor files. Whenever the generator gets as
  far as opening the file, the check of the directory came before the open, and the
  directory exists.
\<close>

theorem ensure_cache_dir_idempotent:
  fixes c x w
  defines "home \<equiv> PROTON_XDG_CACHE_HOME c"
  shows
    "(home \<in> fs_dirs w \<longrightarrow> ensure_cache_dir c x w = (Inr (), emit (IsDir home) w)) \<and>
     (home \<notin> fs_dirs w \<and> fs_files w home = None \<and> os_fault x (SysMkdir home) = None \<longrightarrow>
        fst (ensure_cache_dir c x w) = Inr () \<and>
        fs_dirs (snd (ensure_cache_dir c x w)) = insert home (fs_dirs w) \<and>
        fs_files (snd (ensure_cache_dir c x w)) = fs_files w \<and>
        new_effects w (snd (ensure_cache_dir c x w)) = [IsDir home, Mkdir home]) \<and>
     (\<forall>w1. ensure_cache_dir c x w = (Inr (), w1) \<longrightarrow>
        home \<in> fs_dirs w1 \<and> ensure_cache_dir c x w1 = (Inr (), emit (IsDir home) w1)) \<and>
     (\<forall>servername ip_list cached_cert protocol.
        OpenW cached_cert \<in> set (new_effects w
          (snd (generate_openvpn_cert c x servername ip_list cached_cert protocol w))) \<longrightarrow>
        home \<in> fs_dirs
          (snd (generate_openvpn_cert c x servername ip_list cached_cert protocol w)) \<and>
        (\<exists>pre post.
           new_effects w
             (snd (generate_openvpn_cert c x servername ip_list cached_cert protocol w)) =
             pre @ OpenW cached_cert # post \<and>
           IsDir home \<in> set pre))"
proof (intro conjI allI impI)
  assume "home \<in> fs_dirs w"
  then show "ensure_cache_dir c x w = (Inr (), emit (IsDir home) w)"
    by (simp add: ensure_cache_dir_def os_path_isdir_def home_def)
next
  assume a: "home \<notin> fs_dirs w \<and> fs_files w home = None \<and> os_fault x (SysMkdir home) = None"
  then show "fst (ensure_cache_dir c x w) = Inr ()"
    and "fs_dirs (snd (ensure_cache_dir c x w)) = insert home (fs_dirs w)"
    and "fs_files (snd (ensure_cache_dir c x w)) = fs_files w"
    and "new_effects w (snd (ensure_cache_dir c x w)) = [IsDir home, Mkdir home]"
    by (simp_all add: ensure_cache_dir_def os_path_isdir_def os_mkdir_def home_def
          new_effects_def Let_def)
next
  fix w1
  assume a: "ensure_cache_dir c x w = (Inr (), w1)"
  from ensure_cache_dir_cases [OF a] show h: "home \<in> fs_dirs w1"
    by (simp add: home_def)
  then show "ensure_cache_dir c x w1 = (Inr (), emit (IsDir home) w1)"
    by (simp add: ensure_cache_dir_def os_path_isdir_def home_def)
next
  fix servername ip_list cached_cert protocol
  let ?w' = "snd (generate_openvpn_cert c x servername ip_list cached_cert protocol w)"
  assume a: "OpenW cached_cert \<in> set (new_effects w ?w')"
  note b = openvpn_open_after_isdir [OF a]
  from b show "home \<in> fs_dirs ?w'"
    by (simp add: home_def)
  from b have t: "take 2 (new_effects w ?w') =
      [GetTemplate (TEMPLATES c) (OPENVPN_TEMPLATE c), IsDir home]"
    by (simp add: home_def)
  show "\<exists>pre post. new_effects w ?w' = pre @ OpenW cached_cert # post \<and> IsDir home \<in> set pre"
    by (rule open_after [OF a t]) simp
qed

theorem ensure_cache_dir_idempotent_witness:
  "PROTON_XDG_CACHE_HOME example_constants \<notin> fs_dirs example_world \<and>
   fst (ensure_cache_dir example_constants example_externals example_world) = Inr () \<and>
   fs_dirs (snd (ensure_cache_dir example_constants example_externals example_world)) =
     {''/home/user/.cache/protonvpn'', ''/tmp''} \<and>
   ensure_cache_dir example_constants example_externals
     (snd (ensure_cache_dir example_constants example_externals example_world)) =
     (Inr (), emit (IsDir ''/home/user/.cache/protonvpn'')
        (snd (ensure_cache_dir example_constants example_externals example_world))) \<and>
   ensure_cache_dir example_constants example_externals cached_world =
     (Inr (), emit (IsDir ''/home/user/.cache/protonvpn'') cached_world) \<and>
   OpenW ''/tmp/cert.ovpn'' \<in> set (new_effects example_world
     (snd (generate_openvpn_cert example_constants example_externals ''CH#1''
        [PyStr ''1.2.3.4''] ''/tmp/cert.ovpn'' ''tcp'' example_world))) \<and>
   PROTON_XDG_CACHE_HOME example_constants \<in> fs_dirs
     (snd (generate_openvpn_cert example_constants example_externals ''CH#1''
        [PyStr ''1.2.3.4''] ''/tmp/cert.ovpn'' ''tcp'' example_world))"
proof -
  have h: "PROTON_XDG_CACHE_HOME example_constants = ''/home/user/.cache/protonvpn''"
    by (simp add: example_constants_def)
  have a: "''/home/user/.cache/protonvpn'' \<notin> fs_dirs example_world"
    "fs_files example_world ''/home/user/.cache/protonvpn'' = None"
    "os_fault example_externals (SysMkdir ''/home/user/.cache/protonvpn'') = None"
    "''/home/user/.cache/protonvpn'' \<in> fs_dirs cached_world"
    "fs_dirs example_world = {''/tmp''}"
    by (simp_all add: example_world_def cached_world_def example_externals_def)
  have p: "ensure_cache_dir example_constants example_externals example_world =
      (Inr (), snd (ensure_cache_dir example_constants example_externals example_world))"
    using ensure_cache_dir_idempotent [of example_constants example_world example_externals] h a
    by (simp add: prod_eq_iff)
  have o: "OpenW ''/tmp/cert.ovpn'' \<in> set (new_effects example_world
     (snd (generate_openvpn_cert example_constants example_externals ''CH#1''
        [PyStr ''1.2.3.4''] ''/tmp/cert.ovpn'' ''tcp'' example_world)))"
    by (simp add: run_defs example_defs)
  from ensure_cache_dir_idempotent [of example_constants example_world example_externals]
    ensure_cache_dir_idempotent [of example_constants cached_world example_externals]
    h a p o
  show ?thesis by auto
qed


end
